theory Spec2Isabelle
  imports Main
begin

section \<open>JavaScript objects used as dictionaries\<close>

text \<open>
  \<open>Record<string, T>\<close> is a JavaScript object: an association list with at most one
  entry per key, kept in insertion order. \<open>Object.keys\<close> and \<open>Object.values\<close> enumerate
  the keys that are array indices first, in ascending numeric order, and then the other
  keys in insertion order (\<open>own_entries\<close>). An array index is the canonical decimal form
  of a number from 0 to 2^32 - 2.
\<close>

type_synonym 'v obj = "(string \<times> 'v) list"

definition obj_get :: "'v obj \<Rightarrow> string \<Rightarrow> 'v option" where
  "obj_get xs k = map_of xs k"

fun obj_set :: "string \<Rightarrow> 'v \<Rightarrow> 'v obj \<Rightarrow> 'v obj" where
  "obj_set k v [] = [(k, v)]"
| "obj_set k v ((k', v') # xs) = (if k' = k then (k, v) # xs else (k', v') # obj_set k v xs)"

definition obj_delete :: "string \<Rightarrow> 'v obj \<Rightarrow> 'v obj" where
  "obj_delete k xs = filter (\<lambda>kv. fst kv \<noteq> k) xs"

definition is_digit :: "char \<Rightarrow> bool" where
  "is_digit c = (48 \<le> (of_char c :: int) \<and> (of_char c :: int) \<le> 57)"

definition index_value :: "string \<Rightarrow> int" where
  "index_value k = foldl (\<lambda>n c. 10 * n + (of_char c - 48)) 0 k"

definition is_array_index :: "string \<Rightarrow> bool" where
  "is_array_index k =
     (k \<noteq> [] \<and> list_all is_digit k \<and> (length k = 1 \<or> hd k \<noteq> CHR ''0'')
      \<and> index_value k < 4294967295)"

definition own_entries :: "'v obj \<Rightarrow> 'v obj" where
  "own_entries xs =
     sort_key (\<lambda>kv. index_value (fst kv)) (filter (\<lambda>kv. is_array_index (fst kv)) xs)
     @ filter (\<lambda>kv. \<not> is_array_index (fst kv)) xs"

definition obj_keys :: "'v obj \<Rightarrow> string list" where
  "obj_keys xs = map fst (own_entries xs)"

definition obj_values :: "'v obj \<Rightarrow> 'v list" where
  "obj_values xs = map snd (own_entries xs)"

section \<open>Data model (runtime-api types used by UserService.ts)\<close>

record GameProfile =
  id_gp :: string
  name_gp :: string

record UserProfile =
  id_user :: string
  username :: string
  authService :: string
  profiles :: "GameProfile obj"
  selectedProfile :: string

text \<open>\<open>UserSchema\<close> / \<open>UserState\<close>: the fields the constructor of UserService.ts lists
  (lines 40-47 and 108-113). \<open>selectedUser\<close> is the object \<open>{ id }\<close>; its one field is
  \<open>selectedUser_id\<close>.\<close>

record UserState =
  users :: "UserProfile obj"
  selectedUser_id :: string
  clientToken :: string
  yggdrasilServices :: "string list"

datatype error = RequireError | TypeError | ProviderError string | AbortError | IOError string

text \<open>The kind of error a provider fails with when its abort signal fired.\<close>

definition cancellation_kind :: "error \<Rightarrow> bool" where
  "cancellation_kind e = (e = AbortError)"

datatype AbortController = AbortController (aborted: bool)

definition abort :: "AbortController \<Rightarrow> AbortController" where
  "abort c = AbortController True"

text \<open>\<open>controller?.abort()\<close>: nothing happens on \<open>undefined\<close>.\<close>

definition abort_opt :: "AbortController option \<Rightarrow> AbortController option" where
  "abort_opt c = (case c of None \<Rightarrow> None | Some k \<Rightarrow> Some (abort k))"

text \<open>Whether the signal handed to a provider has fired by the time the provider settles.\<close>

definition signal_aborted :: "AbortController option \<Rightarrow> bool" where
  "signal_aborted c = (case c of None \<Rightarrow> False | Some k \<Rightarrow> aborted k)"

record LoginOptions =
  lo_username :: string
  lo_password :: string
  service :: string

text \<open>The \<open>slim\<close> field of a skin payload is read with \<open>typeof\<close>, so it is a JavaScript
  value that may be missing or of any type.\<close>

datatype js_value = JUndefined | JBool bool | JString string | JNumber int

record Skin =
  skin_url :: string
  slim :: js_value

record UploadSkinOptions =
  gameProfileId :: "string option"
  userId :: "string option"
  skin :: "Skin option"

text \<open>
  Modelled from the spec: the account provider interface (AccountSystem.ts is not in src).
  Section 6 gives \<open>login(options, cancelSignal)\<close>, \<open>refresh(account, cancelSignal)\<close> and
  \<open>setSkin(account, profile, options, cancelSignal)\<close>, each returning an Account or
  failing. The \<open>bool\<close> argument is the state of the cancel signal when the call settles.
\<close>

record UserAccountSystem =
  sys_login :: "LoginOptions \<Rightarrow> bool \<Rightarrow> error + UserProfile"
  sys_refresh :: "UserProfile \<Rightarrow> bool \<Rightarrow> error + UserProfile"
  sys_setSkin :: "UserProfile \<Rightarrow> GameProfile \<Rightarrow> UploadSkinOptions \<Rightarrow> bool \<Rightarrow> error + UserProfile"

text \<open>A record of the provider invocations made, in order (not a field of the source; it
  makes "which provider call was made" a value that can be compared).\<close>

datatype provider_call =
    LoginCall string LoginOptions
  | RefreshCall string UserProfile
  | SetSkinCall string UserProfile GameProfile UploadSkinOptions

record UserService =
  state :: UserState
  loginController :: "AbortController option"
  refreshController :: "AbortController option"
  setSkinController :: "AbortController option"
  accountSystems :: "string \<Rightarrow> UserAccountSystem option"
  yggdrasilAccountSystem :: UserAccountSystem
  providerCalls :: "provider_call list"

section \<open>UserState mutations\<close>

text \<open>
  Modelled from the spec: the mutations and the getter of \<open>UserState\<close> (runtime-api, not
  in src). Section 4.5: login "replaces/creates the Account entry and sets it as selected",
  selectUser "sets selection", selectGameProfile "sets that account's selectedProfile",
  removeUserProfile "deletes the account entry" and, when no other account is chosen,
  "leaves selection empty"; section 3: \<open>selectedAccountId\<close> is "empty or a key in
  accounts". \<open>user\<close> is the account the selection points at, if any.
\<close>

definition user :: "UserState \<Rightarrow> UserProfile option" where
  "user st = obj_get (users st) (selectedUser_id st)"

definition userProfile :: "UserProfile \<Rightarrow> UserState \<Rightarrow> UserState" where
  "userProfile p st = st\<lparr>users := obj_set (id_user p) p (users st)\<rparr>"

definition userSelect :: "string \<Rightarrow> UserState \<Rightarrow> UserState" where
  "userSelect i st = st\<lparr>selectedUser_id := i\<rparr>"

definition userGameProfileSelect :: "string \<Rightarrow> string \<Rightarrow> UserState \<Rightarrow> UserState" where
  "userGameProfileSelect uid profileId st =
     (case obj_get (users st) uid of
        None \<Rightarrow> st
      | Some u \<Rightarrow> st\<lparr>users := obj_set uid (u\<lparr>selectedProfile := profileId\<rparr>) (users st)\<rparr>)"

definition userProfileRemove :: "string \<Rightarrow> UserState \<Rightarrow> UserState" where
  "userProfileRemove uid st =
     st\<lparr>users := obj_delete uid (users st),
        selectedUser_id := (if selectedUser_id st = uid then [] else selectedUser_id st)\<rparr>"

section \<open>UserService.ts\<close>

text \<open>
  Modelled from the spec: \<open>requireString\<close> and \<open>requireObject\<close> (util/object, not in
  src) are the validation step of section 7, run "before any state mutation or I/O", which
  rejects "malformed input (empty required string, wrong object shape)". A string argument
  is rejected when it is empty; an options record always has the shape of an object.
\<close>

definition requireString :: "string \<Rightarrow> error + unit" where
  "requireString s = (if s = [] then Inl RequireError else Inr ())"

definition requireObject :: "UploadSkinOptions \<Rightarrow> error + unit" where
  "requireObject opts = Inr ()"

text \<open>
  \<open>this.accountSystems[name] || this.yggdrasilAccountSystem\<close>. \<open>accountSystems\<close> is a
  plain object \<open>{}\<close>, so a name it does not hold itself still finds the members every
  object inherits from \<open>Object.prototype\<close>. Such a member is truthy, so it is what the
  lookup gives, and it is not an account system: it has no \<open>login\<close>, \<open>refresh\<close> or
  \<open>setSkin\<close>, and calling one throws a TypeError at the call itself, before
  \<open>.finally\<close> is attached, so that the controller created just before stays in its
  slot (\<open>inherited\<close> below, in \<open>login\<close>, \<open>refreshUser\<close> and \<open>uploadSkin\<close>).
  (Registering a system under the name \<open>__proto__\<close> would replace the prototype itself;
  the registry here then simply holds it under that name.)
\<close>

definition object_prototype_names :: "string list" where
  "object_prototype_names =
     [''constructor'', ''__defineGetter__'', ''__defineSetter__'', ''hasOwnProperty'',
      ''__lookupGetter__'', ''__lookupSetter__'', ''isPrototypeOf'', ''propertyIsEnumerable'',
      ''toString'', ''valueOf'', ''__proto__'', ''toLocaleString'']"

definition inherited :: "UserService \<Rightarrow> string \<Rightarrow> bool" where
  "inherited s name = (accountSystems s name = None \<and> name \<in> set object_prototype_names)"

definition prototype_member :: UserAccountSystem where
  "prototype_member =
     \<lparr>sys_login = (\<lambda>options a. Inl TypeError),
      sys_refresh = (\<lambda>u a. Inl TypeError),
      sys_setSkin = (\<lambda>u g options a. Inl TypeError)\<rparr>"

definition resolveSystem :: "UserService \<Rightarrow> string \<Rightarrow> UserAccountSystem" where
  "resolveSystem s name =
     (case accountSystems s name of
        None \<Rightarrow> if name \<in> set object_prototype_names then prototype_member
                else yggdrasilAccountSystem s
      | Some sys \<Rightarrow> sys)"

definition registerAccountSystem :: "string \<Rightarrow> UserAccountSystem \<Rightarrow> UserService \<Rightarrow> UserService" where
  "registerAccountSystem name sys s = s\<lparr>accountSystems := (accountSystems s)(name \<mapsto> sys)\<rparr>"

definition setUserProfile :: "UserProfile \<Rightarrow> UserService \<Rightarrow> UserService" where
  "setUserProfile p s = s\<lparr>state := userProfile p (state s)\<rparr>"

subsection \<open>login\<close>

text \<open>
  The decorators \<open>@Lock\<close> and \<open>@Singleton\<close> (services/Service, not in src) queue or
  merge calls that are in flight together; each method here is the body they wrap, run on
  its own.

  An asynchronous method suspends at its provider call. Each one is written in two parts:
  \<open>_start\<close> runs up to the \<open>await\<close> (the controller is created and the provider
  invoked) and returns the locals the rest needs; \<open>_settle\<close> runs from the moment the
  provider's promise settles. The method called with nothing in between is their
  composition.
\<close>

definition login_start :: "LoginOptions \<Rightarrow> UserService \<Rightarrow> UserAccountSystem \<times> UserService" where
  "login_start options s =
     (let system = resolveSystem s (service options)
      in (system, s\<lparr>loginController := Some (AbortController False),
                     providerCalls := providerCalls s @ [LoginCall (service options) options]\<rparr>))"

definition login_settle ::
  "UserAccountSystem \<Rightarrow> LoginOptions \<Rightarrow> UserService \<Rightarrow> (error + UserProfile) \<times> UserService" where
  "login_settle system options s =
     (let outcome = sys_login system options (signal_aborted (loginController s));
          s1 = s\<lparr>loginController := None\<rparr>
      in case outcome of
           Inl e \<Rightarrow> (Inl e, s1)
         | Inr profile \<Rightarrow>
             (Inr profile,
              s1\<lparr>state := userSelect (id_user profile) (userProfile profile (state s1))\<rparr>))"

definition login :: "LoginOptions \<Rightarrow> UserService \<Rightarrow> (error + UserProfile) \<times> UserService" where
  "login options s =
     (case login_start options s of
        (system, s1) \<Rightarrow>
          if inherited s (service options)
          then (Inl TypeError, s\<lparr>loginController := Some (AbortController False)\<rparr>)
          else login_settle system options s1)"

definition abortLogin :: "UserService \<Rightarrow> UserService" where
  "abortLogin s = s\<lparr>loginController := abort_opt (loginController s)\<rparr>"

definition abortRefresh :: "UserService \<Rightarrow> UserService" where
  "abortRefresh s = s\<lparr>refreshController := abort_opt (refreshController s)\<rparr>"

subsection \<open>uploadSkin\<close>

text \<open>\<open>if (skin) { if (typeof skin.slim !== 'boolean') skin.slim = false }\<close>: the
  options object is changed in place and is the one handed to the provider.\<close>

definition normalizeSlim :: "UploadSkinOptions \<Rightarrow> UploadSkinOptions" where
  "normalizeSlim options =
     (case skin options of
        None \<Rightarrow> options
      | Some sk \<Rightarrow>
          (case slim sk of
             JBool b \<Rightarrow> options
           | _ \<Rightarrow> options\<lparr>skin := Some (sk\<lparr>slim := JBool False\<rparr>)\<rparr>))"

text \<open>\<open>gameProfileId || user.selectedProfile\<close>: \<open>undefined\<close> and the empty string are
  falsy.\<close>

definition profileKey :: "string option \<Rightarrow> UserProfile \<Rightarrow> string" where
  "profileKey g u = (case g of None \<Rightarrow> selectedProfile u
                     | Some k \<Rightarrow> if k = [] then selectedProfile u else k)"

text \<open>Reading a property of \<open>undefined\<close> throws a TypeError: \<open>user.profiles\<close> when the
  user is missing, \<open>gameProfile.name\<close> (in the log line) when the profile is missing.
  (A user id named like a member of \<open>Object.prototype\<close> finds that member, whose
  \<open>profiles\<close> is \<open>undefined\<close>: a TypeError all the same. Profile ids of that form are
  left out: the profiles of an account are those its provider gave it.)\<close>

definition uploadSkin_start ::
  "UploadSkinOptions \<Rightarrow> UserService \<Rightarrow>
     (error + (UserAccountSystem \<times> UserProfile \<times> GameProfile \<times> UploadSkinOptions)) \<times> UserService" where
  "uploadSkin_start options s =
     (case requireObject options of
        Inl e \<Rightarrow> (Inl e, s)
      | Inr _ \<Rightarrow>
         (let uid = (case userId options of None \<Rightarrow> selectedUser_id (state s) | Some u \<Rightarrow> u)
          in case obj_get (users (state s)) uid of
               None \<Rightarrow> (Inl TypeError, s)
             | Some usr \<Rightarrow>
                (let gameProfile = obj_get (profiles usr) (profileKey (gameProfileId options) usr);
                     sys = resolveSystem s (authService usr);
                     options1 = normalizeSlim options
                 in case gameProfile of
                      None \<Rightarrow> (Inl TypeError, s)
                    | Some gp \<Rightarrow>
                        if inherited s (authService usr)
                        then (Inl TypeError,
                              s\<lparr>setSkinController := Some (AbortController False)\<rparr>)
                        else (Inr (sys, usr, gp, options1),
                              s\<lparr>setSkinController := Some (AbortController False),
                                providerCalls := providerCalls s
                                   @ [SetSkinCall (authService usr) usr gp options1]\<rparr>))))"

definition uploadSkin_settle ::
  "UserAccountSystem \<Rightarrow> UserProfile \<Rightarrow> GameProfile \<Rightarrow> UploadSkinOptions \<Rightarrow> UserService
     \<Rightarrow> (error + unit) \<times> UserService" where
  "uploadSkin_settle sys usr gp options s =
     (let outcome = sys_setSkin sys usr gp options (signal_aborted (setSkinController s));
          s1 = s\<lparr>setSkinController := None\<rparr>
      in case outcome of
           Inl e \<Rightarrow> (Inl e, s1)
         | Inr data \<Rightarrow> (Inr (), s1\<lparr>state := userProfile data (state s1)\<rparr>))"

definition uploadSkin :: "UploadSkinOptions \<Rightarrow> UserService \<Rightarrow> (error + unit) \<times> UserService" where
  "uploadSkin options s =
     (case uploadSkin_start options s of
        (Inl e, s1) \<Rightarrow> (Inl e, s1)
      | (Inr (sys, usr, gp, options1), s1) \<Rightarrow> uploadSkin_settle sys usr gp options1 s1)"



subsection \<open>refreshUser\<close>

definition refreshUser_start ::
  "UserService \<Rightarrow> (UserAccountSystem \<times> UserProfile) option \<times> UserService" where
  "refreshUser_start s =
     (case user (state s) of
        None \<Rightarrow> (None, s)
      | Some usr \<Rightarrow>
          (let system = resolveSystem s (authService usr)
           in (Some (system, usr),
               s\<lparr>refreshController := Some (AbortController False),
                 providerCalls := providerCalls s @ [RefreshCall (authService usr) usr]\<rparr>)))"

definition refreshUser_settle ::
  "UserAccountSystem \<Rightarrow> UserProfile \<Rightarrow> UserService \<Rightarrow> (error + unit) \<times> UserService" where
  "refreshUser_settle system usr s =
     (let outcome = sys_refresh system usr (signal_aborted (refreshController s));
          s1 = s\<lparr>refreshController := None\<rparr>
      in case outcome of
           Inl e \<Rightarrow> (Inl e, s1)
         | Inr newUser \<Rightarrow> (Inr (), s1\<lparr>state := userProfile newUser (state s1)\<rparr>))"

definition refreshUser :: "UserService \<Rightarrow> (error + unit) \<times> UserService" where
  "refreshUser s =
     (case refreshUser_start s of
        (None, s1) \<Rightarrow> (Inr (), s1)
      | (Some (system, usr), s1) \<Rightarrow>
          if inherited s (authService usr)
          then (Inl TypeError, s\<lparr>refreshController := Some (AbortController False)\<rparr>)
          else refreshUser_settle system usr s1)"

subsection \<open>selectUser, selectGameProfile, removeUserProfile\<close>

definition selectUser :: "string \<Rightarrow> UserService \<Rightarrow> (error + unit) \<times> UserService" where
  "selectUser uid s =
     (case requireString uid of
        Inl e \<Rightarrow> (Inl e, s)
      | Inr _ \<Rightarrow>
          if uid = selectedUser_id (state s) then (Inr (), s)
          else refreshUser (s\<lparr>state := userSelect uid (state s)\<rparr>))"

definition selectGameProfile :: "string \<Rightarrow> UserService \<Rightarrow> (error + unit) \<times> UserService" where
  "selectGameProfile profileId s =
     (case requireString profileId of
        Inl e \<Rightarrow> (Inl e, s)
      | Inr _ \<Rightarrow>
          (case user (state s) of
             None \<Rightarrow> (Inr (), s)
           | Some usr \<Rightarrow>
               (Inr (), s\<lparr>state := userGameProfileSelect (selectedUser_id (state s)) profileId
                                      (state s)\<rparr>)))"

text \<open>\<open>Object.values(this.state.users).find((u) => !!u.selectedProfile)\<close> looks through
  every account, the one being removed included.\<close>

definition removeUserProfile :: "string \<Rightarrow> UserService \<Rightarrow> (error + unit) \<times> UserService" where
  "removeUserProfile uid s =
     (case requireString uid of
        Inl e \<Rightarrow> (Inl e, s)
      | Inr _ \<Rightarrow>
          (let st = state s;
               st1 = (if selectedUser_id st = uid
                      then (case find (\<lambda>u. selectedProfile u \<noteq> []) (obj_values (users st)) of
                              None \<Rightarrow> st
                            | Some usr \<Rightarrow> userSelect (id_user usr) st)
                      else st)
           in (Inr (), s\<lparr>state := userProfileRemove uid st1\<rparr>)))"

subsection \<open>The public methods as calls\<close>

text \<open>The public methods above, as one type of calls; \<open>perform\<close> runs a call to
  completion and keeps the service it leaves, \<open>run\<close> a sequence of calls.\<close>

datatype call =
    Login LoginOptions
  | UploadSkin UploadSkinOptions
  | RefreshUser
  | SelectUser string
  | SelectGameProfile string
  | RemoveUserProfile string
  | AbortLogin
  | AbortRefresh
  | RegisterAccountSystem string UserAccountSystem
  | SetUserProfile UserProfile

fun perform :: "call \<Rightarrow> UserService \<Rightarrow> UserService" where
  "perform (Login options) s = snd (login options s)"
| "perform (UploadSkin options) s = snd (uploadSkin options s)"
| "perform RefreshUser s = snd (refreshUser s)"
| "perform (SelectUser uid) s = snd (selectUser uid s)"
| "perform (SelectGameProfile profileId) s = snd (selectGameProfile profileId s)"
| "perform (RemoveUserProfile uid) s = snd (removeUserProfile uid s)"
| "perform AbortLogin s = abortLogin s"
| "perform AbortRefresh s = abortRefresh s"
| "perform (RegisterAccountSystem name sys) s = registerAccountSystem name sys s"
| "perform (SetUserProfile p) s = setUserProfile p s"

fun run :: "call list \<Rightarrow> UserService \<Rightarrow> UserService" where
  "run [] s = s"
| "run (c # cs) s = run cs (perform c s)"

subsection \<open>The selection invariant\<close>

definition profile_ok :: "UserProfile \<Rightarrow> bool" where
  "profile_ok u = (selectedProfile u = [] \<or> selectedProfile u \<in> set (obj_keys (profiles u)))"

definition selection_invariant :: "UserState \<Rightarrow> bool" where
  "selection_invariant st =
     ((selectedUser_id st = [] \<or> selectedUser_id st \<in> set (obj_keys (users st)))
      \<and> list_all profile_ok (obj_values (users st)))"

text \<open>Every account is stored under its own id (what \<open>userProfile\<close> does).\<close>

definition keyed :: "UserState \<Rightarrow> bool" where
  "keyed st = list_all (\<lambda>kv. id_user (snd kv) = fst kv) (users st)"

text \<open>A provider is well-formed when the accounts it returns have a selected profile that
  is empty or one of their profiles: always for \<open>login\<close>, and for \<open>refresh\<close> and
  \<open>setSkin\<close> when the account they are given has.\<close>

definition result_ok :: "error + UserProfile \<Rightarrow> bool" where
  "result_ok r = (case r of Inl e \<Rightarrow> True | Inr p \<Rightarrow> profile_ok p)"

definition system_ok :: "UserAccountSystem \<Rightarrow> bool" where
  "system_ok sys =
     ((\<forall>options a. result_ok (sys_login sys options a))
      \<and> (\<forall>u a. profile_ok u \<longrightarrow> result_ok (sys_refresh sys u a))
      \<and> (\<forall>u g options a. profile_ok u \<longrightarrow> result_ok (sys_setSkin sys u g options a)))"

definition providers_ok :: "UserService \<Rightarrow> bool" where
  "providers_ok s = (\<forall>name. system_ok (resolveSystem s name))"

text \<open>The calls that name an existing target: an account id that is a key of the users
  (or empty), a profile id that is a key of the selected account's profiles (or empty), an
  account or a provider that is well-formed.\<close>

fun targets_exist :: "call \<Rightarrow> UserService \<Rightarrow> bool" where
  "targets_exist (SelectUser uid) s = (uid = [] \<or> uid \<in> set (obj_keys (users (state s))))"
| "targets_exist (SelectGameProfile profileId) s =
     (case user (state s) of
        None \<Rightarrow> True
      | Some usr \<Rightarrow> profileId = [] \<or> profileId \<in> set (obj_keys (profiles usr)))"
| "targets_exist (RegisterAccountSystem name sys) s = system_ok sys"
| "targets_exist (SetUserProfile p) s = profile_ok p"
| "targets_exist c s = True"

fun admissible :: "call list \<Rightarrow> UserService \<Rightarrow> bool" where
  "admissible [] s = True"
| "admissible (c # cs) s = (targets_exist c s \<and> admissible cs (perform c s))"

definition wf_state :: "UserState \<Rightarrow> bool" where
  "wf_state st = (selection_invariant st \<and> keyed st)"

definition wf_service :: "UserService \<Rightarrow> bool" where
  "wf_service s = (wf_state (state s) \<and> providers_ok s)"

section \<open>persistance.ts: createSafeFile\<close>

text \<open>The disk: the content of each file that exists, the paths on which an I/O call
  fails although the file exists, and the copies made so far (not part of a disk; it makes
  "copied once" a value).\<close>

record FileSystem =
  files :: "string \<Rightarrow> string option"
  io_fault :: "string \<Rightarrow> bool"
  copyLog :: "(string \<times> string) list"

text \<open>Modelled from the spec: \<open>missing\<close> (util/fs, not in src); section 4.1, "if
  \<open>path\<close> does not exist".\<close>

definition missing :: "string \<Rightarrow> FileSystem \<Rightarrow> bool" where
  "missing p fs = (files fs p = None)"

definition copyFile :: "string \<Rightarrow> string \<Rightarrow> FileSystem \<Rightarrow> error + FileSystem" where
  "copyFile src dst fs =
     (case files fs src of
        None \<Rightarrow> Inl (IOError ''ENOENT'')
      | Some content \<Rightarrow>
          if io_fault fs src \<or> io_fault fs dst then Inl (IOError ''EACCES'')
          else Inr (fs\<lparr>files := (files fs)(dst \<mapsto> content),
                       copyLog := copyLog fs @ [(src, dst)]\<rparr>))"

definition readFile :: "string \<Rightarrow> FileSystem \<Rightarrow> error + string" where
  "readFile p fs =
     (case files fs p of
        None \<Rightarrow> Inl (IOError ''ENOENT'')
      | Some content \<Rightarrow> if io_fault fs p then Inl (IOError ''EACCES'') else Inr content)"

text \<open>\<open>for (const p of legacyPaths) { try { await copyFile(p, path); break } catch { } }\<close>\<close>

fun copyLegacy :: "string \<Rightarrow> string list \<Rightarrow> FileSystem \<Rightarrow> FileSystem" where
  "copyLegacy path [] fs = fs"
| "copyLegacy path (p # ps) fs =
     (case copyFile p path fs of
        Inr fs1 \<Rightarrow> fs1
      | Inl e \<Rightarrow> copyLegacy path ps fs)"

text \<open>\<open>createSafeFile(path, schema, logger, legacyPaths).read()\<close>. The serializer
  (util/serialize, not in src) is the parameter \<open>deserialize\<close>.\<close>

definition safeFile_read ::
  "(string \<Rightarrow> 'a) \<Rightarrow> string \<Rightarrow> string list \<Rightarrow> FileSystem \<Rightarrow> 'a \<times> FileSystem" where
  "safeFile_read deserialize path legacyPaths fs =
     (let fs1 = (if missing path fs then copyLegacy path legacyPaths fs else fs);
          buf = (case readFile path fs1 of Inl e \<Rightarrow> [] | Inr b \<Rightarrow> b)
      in (deserialize buf, fs1))"

definition can_copy :: "string \<Rightarrow> FileSystem \<Rightarrow> string \<Rightarrow> bool" where
  "can_copy path fs p = (case copyFile p path fs of Inl e \<Rightarrow> False | Inr fs1 \<Rightarrow> True)"

section \<open>InstanceLogService.ts\<close>

text \<open>What the service reads from its surroundings: the instance path, the disk, the
  \<open>path\<close> module, \<open>gunzip\<close>, the encoding worker and the \<open>UTF8\<close> constant
  (util/encoding, not in src).\<close>

record LogService =
  instancePath :: string
  disk :: FileSystem
  join :: "string list \<Rightarrow> string"
  isAbsolute :: "string \<Rightarrow> bool"
  gunzip :: "string \<Rightarrow> error + string"
  guessEncodingByBuffer :: "string \<Rightarrow> error + string option"
  decode :: "string \<Rightarrow> string \<Rightarrow> error + string"
  UTF8 :: string

definition endsWith :: "string \<Rightarrow> string \<Rightarrow> bool" where
  "endsWith s suffix =
     (length suffix \<le> length s \<and> drop (length s - length suffix) s = suffix)"

text \<open>
  \<open>String.prototype.trim\<close> removes white space and line terminators from both ends:
  U+0009 to U+000D, U+0020, U+00A0, U+1680, U+2000 to U+200A, U+2028, U+2029, U+202F,
  U+205F, U+3000 and U+FEFF. A string here is the UTF-8 bytes of the JavaScript string, so
  each of them is the byte sequence below.
\<close>

definition js_whitespace :: "string list" where
  "js_whitespace =
     [[CHR 0x09], [CHR 0x0A], [CHR 0x0B], [CHR 0x0C], [CHR 0x0D], [CHR 0x20],
      [CHR 0xC2, CHR 0xA0],
      [CHR 0xE1, CHR 0x9A, CHR 0x80],
      [CHR 0xE2, CHR 0x80, CHR 0x80], [CHR 0xE2, CHR 0x80, CHR 0x81],
      [CHR 0xE2, CHR 0x80, CHR 0x82], [CHR 0xE2, CHR 0x80, CHR 0x83],
      [CHR 0xE2, CHR 0x80, CHR 0x84], [CHR 0xE2, CHR 0x80, CHR 0x85],
      [CHR 0xE2, CHR 0x80, CHR 0x86], [CHR 0xE2, CHR 0x80, CHR 0x87],
      [CHR 0xE2, CHR 0x80, CHR 0x88], [CHR 0xE2, CHR 0x80, CHR 0x89],
      [CHR 0xE2, CHR 0x80, CHR 0x8A],
      [CHR 0xE2, CHR 0x80, CHR 0xA8], [CHR 0xE2, CHR 0x80, CHR 0xA9],
      [CHR 0xE2, CHR 0x80, CHR 0xAF],
      [CHR 0xE2, CHR 0x81, CHR 0x9F],
      [CHR 0xE3, CHR 0x80, CHR 0x80],
      [CHR 0xEF, CHR 0xBB, CHR 0xBF]]"

text \<open>The rest of \<open>s\<close> after one leading member of the table, if it starts with one.\<close>

definition drop_one :: "string list \<Rightarrow> string \<Rightarrow> string option" where
  "drop_one table s =
     map_option (\<lambda>w. drop (length w) s) (find (\<lambda>w. w \<noteq> [] \<and> take (length w) s = w) table)"

function drop_leading :: "string list \<Rightarrow> string \<Rightarrow> string" where
  "drop_leading table s =
     (case drop_one table s of None \<Rightarrow> s | Some r \<Rightarrow> drop_leading table r)"
  by pat_completeness auto
termination
proof (relation "measure (\<lambda>(table, s). length s)")
  show "wf (measure (\<lambda>(table, s). length s))" by simp
next
  fix table :: "string list" and s r :: string
  assume "drop_one table s = Some r"
  then obtain w where w: "w \<noteq> []" "take (length w) s = w" and r: "r = drop (length w) s"
    by (auto simp: drop_one_def find_Some_iff)
  from w(2) have "length (take (length w) s) = length w" by simp
  then have "length w \<le> length s" by simp
  with w(1) r have "length r < length s" by (cases w) auto
  then show "((table, r), (table, s)) \<in> measure (\<lambda>(table, s). length s)" by simp
qed

declare drop_leading.simps [simp del]

definition trim :: "string \<Rightarrow> string" where
  "trim s = rev (drop_leading (map rev js_whitespace) (rev (drop_leading js_whitespace s)))"

text \<open>\<open>if (name.endsWith('.gz')) buf = await gunzip(buf)\<close>\<close>

definition gunzipIfGz :: "LogService \<Rightarrow> string \<Rightarrow> string \<Rightarrow> error + string" where
  "gunzipIfGz env name buf = (if endsWith name ''.gz'' then gunzip env buf else Inr buf)"

text \<open>\<open>guessEncodingByBuffer(buf).catch(e => undefined)\<close>, then \<open>encoding || UTF8\<close>:
  a failed guess, \<open>undefined\<close> and the empty string all give \<open>UTF8\<close>.\<close>

definition encodingOf :: "LogService \<Rightarrow> string \<Rightarrow> string" where
  "encodingOf env buf =
     (case guessEncodingByBuffer env buf of
        Inl e \<Rightarrow> UTF8 env
      | Inr None \<Rightarrow> UTF8 env
      | Inr (Some enc) \<Rightarrow> if enc = [] then UTF8 env else enc)"

text \<open>The body of the \<open>try\<close> block of \<open>getLogContent\<close>.\<close>

definition getLogContent_try :: "LogService \<Rightarrow> string \<Rightarrow> error + string" where
  "getLogContent_try env name =
     (let filePath = join env [instancePath env, ''logs'', name]
      in case readFile filePath (disk env) of
           Inl e \<Rightarrow> Inl e
         | Inr buf \<Rightarrow>
             (case gunzipIfGz env name buf of
                Inl e \<Rightarrow> Inl e
              | Inr buf1 \<Rightarrow> decode env buf1 (encodingOf env buf1)))"

definition getLogContent :: "LogService \<Rightarrow> string \<Rightarrow> error + string" where
  "getLogContent env name =
     (case getLogContent_try env name of
        Inl e \<Rightarrow> Inr []
      | Inr result \<Rightarrow> Inr result)"

definition getCrashReportContent :: "LogService \<Rightarrow> string \<Rightarrow> error + string" where
  "getCrashReportContent env name =
     (let filePath = (if isAbsolute env name then name
                      else join env [instancePath env, ''crash-reports'', name])
      in case readFile (trim filePath) (disk env) of
           Inl e \<Rightarrow> Inl e
         | Inr buf \<Rightarrow>
             (case gunzipIfGz env name buf of
                Inl e \<Rightarrow> Inl e
              | Inr buf1 \<Rightarrow> decode env buf1 (encodingOf env buf1)))"

section \<open>Example values\<close>

definition steve :: GameProfile where
  "steve = \<lparr>id_gp = ''p1'', name_gp = ''Steve''\<rparr>"

definition alex :: GameProfile where
  "alex = \<lparr>id_gp = ''p2'', name_gp = ''Alex''\<rparr>"

definition acct_A :: UserProfile where
  "acct_A = \<lparr>id_user = ''A'', username = ''a@example.org'', authService = ''microsoft'',
             profiles = [(''p1'', steve)], selectedProfile = ''p1''\<rparr>"

definition acct_B :: UserProfile where
  "acct_B = \<lparr>id_user = ''B'', username = ''b@example.org'', authService = ''microsoft'',
             profiles = [(''p2'', alex)], selectedProfile = ''p2''\<rparr>"

text \<open>A provider that is offline: every call fails, with the cancellation error when its
  signal has fired.\<close>

definition offline :: UserAccountSystem where
  "offline = \<lparr>sys_login = (\<lambda>opts a. Inl (if a then AbortError else ProviderError ''offline'')),
              sys_refresh = (\<lambda>u a. Inl (if a then AbortError else ProviderError ''offline'')),
              sys_setSkin = (\<lambda>u g opts a. Inl (if a then AbortError else ProviderError ''offline''))\<rparr>"

text \<open>A provider that knows the accounts A and B by user name, and hands back the account
  it is given on refresh (with the user name renewed) and on setSkin.\<close>

definition directory :: UserAccountSystem where
  "directory =
     \<lparr>sys_login = (\<lambda>opts a.
        if a then Inl AbortError
        else if lo_username opts = ''a@example.org'' then Inr acct_A
        else if lo_username opts = ''b@example.org'' then Inr acct_B
        else Inl (ProviderError ''unknown user'')),
      sys_refresh = (\<lambda>u a. if a then Inl AbortError else Inr (u\<lparr>username := ''renewed''\<rparr>)),
      sys_setSkin = (\<lambda>u g opts a. if a then Inl AbortError else Inr u)\<rparr>"


text \<open>A provider whose accounts name a selected profile they do not have.\<close>

definition rogue :: UserAccountSystem where
  "rogue = directory\<lparr>sys_login := (\<lambda>opts a. Inr (acct_A\<lparr>selectedProfile := ''px''\<rparr>))\<rparr>"

definition login_A :: LoginOptions where
  "login_A = \<lparr>lo_username = ''a@example.org'', lo_password = ''secret'', service = ''microsoft''\<rparr>"




definition emptyState :: UserState where
  "emptyState = \<lparr>users = [], selectedUser_id = [], clientToken = [], yggdrasilServices = []\<rparr>"

definition service_of :: "UserAccountSystem \<Rightarrow> UserState \<Rightarrow> UserService" where
  "service_of sys st =
     \<lparr>state = st, loginController = None, refreshController = None, setSkinController = None,
      accountSystems = (\<lambda>n. None), yggdrasilAccountSystem = sys, providerCalls = []\<rparr>"

text \<open>Two accounts, A logged in first and selected, both with a selected profile.\<close>

definition state_AB :: UserState where
  "state_AB = emptyState\<lparr>users := [(''A'', acct_A), (''B'', acct_B)], selectedUser_id := ''A''\<rparr>"

text \<open>The same two accounts, B's provider named like a member of \<open>Object.prototype\<close>.\<close>

definition state_odd :: UserState where
  "state_odd = emptyState\<lparr>users := [(''A'', acct_A),
                                       (''B'', acct_B\<lparr>authService := ''constructor''\<rparr>)],
                            selectedUser_id := ''A''\<rparr>"

text \<open>A login and a skin upload pending; a refresh pending.\<close>

definition skin_in_flight :: UserService where
  "skin_in_flight = (service_of directory state_AB)
     \<lparr>loginController := Some (AbortController False),
      setSkinController := Some (AbortController False)\<rparr>"

definition refresh_in_flight :: UserService where
  "refresh_in_flight = (service_of directory state_AB)
     \<lparr>refreshController := Some (AbortController False)\<rparr>"

text \<open>A disk with no \<open>user.json\<close> in the application data folder and one in the second
  of two legacy places.\<close>

definition disk_legacy :: FileSystem where
  "disk_legacy = \<lparr>files = map_of [(''/home/.minecraft/user.json'', ''legacy user data'')],
                   io_fault = (\<lambda>p. False), copyLog = []\<rparr>"

definition primary_place :: string where
  "primary_place = ''/home/appdata/user.json''"

text \<open>The same disk after \<open>user.json\<close> has been copied from the second legacy place.\<close>

definition disk_migrated :: FileSystem where
  "disk_migrated =
     disk_legacy\<lparr>files := (files disk_legacy)(primary_place \<mapsto> ''legacy user data''),
                  copyLog := copyLog disk_legacy @ [(''/home/.minecraft/user.json'', primary_place)]\<rparr>"

definition legacy_places :: "string list" where
  "legacy_places = [''/home/.xmcl/user.json'', ''/home/.minecraft/user.json'']"

text \<open>An instance with a plain log, a compressed log and a compressed crash report, where
  \<open>gunzip\<close> and the encoding guess fail and decoding hands the bytes back.\<close>

definition log_env :: LogService where
  "log_env =
     \<lparr>instancePath = ''/inst'',
      disk = \<lparr>files = map_of [(''/inst/logs/latest.log'', ''hello''),
                              (''/inst/logs/old.gz'', ''zz''),
                              (''/inst/crash-reports/crash.gz'', ''zz'')],
              io_fault = (\<lambda>p. False), copyLog = []\<rparr>,
      join = (\<lambda>ps. foldr (\<lambda>a b. if b = [] then a else a @ ''/'' @ b) ps []),
      isAbsolute = (\<lambda>p. take 1 p = ''/''),
      gunzip = (\<lambda>b. Inl (IOError ''not gzip'')),
      guessEncodingByBuffer = (\<lambda>b. Inl (IOError ''worker down'')),
      decode = (\<lambda>b enc. Inr b),
      UTF8 = ''utf8''\<rparr>"

definition log_env_undecodable :: LogService where
  "log_env_undecodable = log_env\<lparr>decode := (\<lambda>b enc. Inl (IOError ''bad bytes''))\<rparr>"

section \<open>Dictionary facts\<close>

lemma own_entries_set: "set (own_entries xs) = set xs"
  by (auto simp: own_entries_def)

lemma obj_keys_image: "set (obj_keys xs) = fst ` set xs"
  by (simp add: obj_keys_def own_entries_set)

lemma obj_values_image: "set (obj_values xs) = snd ` set xs"
  by (simp add: obj_values_def own_entries_set)

lemmas obj_eval = obj_keys_def obj_values_def own_entries_def is_array_index_def is_digit_def

lemma obj_set_entries: "set (obj_set k v xs) \<subseteq> insert (k, v) (set xs)"
  by (induction xs) (auto split: if_splits)

lemma obj_set_new: "(k, v) \<in> set (obj_set k v xs)"
  by (induction xs) auto

lemma obj_set_old: "kv \<in> set xs \<Longrightarrow> fst kv \<noteq> k \<Longrightarrow> kv \<in> set (obj_set k v xs)"
  by (induction xs) auto

lemma obj_keys_set: "set (obj_keys (obj_set k v xs)) = insert k (set (obj_keys xs))"
proof
  show "set (obj_keys (obj_set k v xs)) \<subseteq> insert k (set (obj_keys xs))"
    using obj_set_entries[of k v xs] by (force simp: obj_keys_image)
next
  have "k \<in> set (obj_keys (obj_set k v xs))"
    using obj_set_new[of k v xs] by (force simp: obj_keys_image)
  moreover have "a \<in> set (obj_keys (obj_set k v xs))" if "a \<in> set (obj_keys xs)" "a \<noteq> k" for a
  proof -
    from that(1) obtain b where "(a, b) \<in> set xs" by (auto simp: obj_keys_image)
    with that(2) have "(a, b) \<in> set (obj_set k v xs)" by (simp add: obj_set_old)
    then show ?thesis by (force simp: obj_keys_image)
  qed
  ultimately show "insert k (set (obj_keys xs)) \<subseteq> set (obj_keys (obj_set k v xs))" by auto
qed

lemma obj_values_set: "set (obj_values (obj_set k v xs)) \<subseteq> insert v (set (obj_values xs))"
  using obj_set_entries[of k v xs] by (force simp: obj_values_image)

lemma obj_get_set_same: "obj_get (obj_set k v xs) k = Some v"
  by (induction xs) (auto simp: obj_get_def)

lemma obj_get_entry: "obj_get xs k = Some v \<Longrightarrow> (k, v) \<in> set xs"
  by (simp add: obj_get_def map_of_SomeD)

lemma obj_get_key: "obj_get xs k = Some v \<Longrightarrow> k \<in> set (obj_keys xs)"
  by (force simp: obj_keys_image dest: obj_get_entry)

lemma obj_get_value: "obj_get xs k = Some v \<Longrightarrow> v \<in> set (obj_values xs)"
  by (force simp: obj_values_image dest: obj_get_entry)

lemma obj_get_none: "obj_get xs k = None \<Longrightarrow> k \<notin> set (obj_keys xs)"
  by (simp add: obj_get_def obj_keys_image map_of_eq_None_iff)

lemma obj_delete_keys: "set (obj_keys (obj_delete k xs)) = set (obj_keys xs) - {k}"
  by (auto simp: obj_keys_image obj_delete_def)

lemma obj_delete_entries: "set (obj_delete k xs) \<subseteq> set xs"
  by (auto simp: obj_delete_def)

lemma obj_delete_values: "set (obj_values (obj_delete k xs)) \<subseteq> set (obj_values xs)"
  by (auto simp: obj_values_image obj_delete_def)

section \<open>The selection invariant is kept by every mutation and method\<close>

lemma all_profiles_ok_iff: "list_all profile_ok (obj_values xs) = (\<forall>u \<in> set (obj_values xs). profile_ok u)"
  by (simp add: list_all_iff)

lemma keyed_iff: "keyed st = (\<forall>kv \<in> set (users st). id_user (snd kv) = fst kv)"
  by (simp add: keyed_def list_all_iff)

lemma keyed_value_key: "keyed st \<Longrightarrow> u \<in> set (obj_values (users st)) \<Longrightarrow> id_user u \<in> set (obj_keys (users st))"
  by (force simp: keyed_iff obj_values_image obj_keys_image)

lemma wf_userProfile: "wf_state st \<Longrightarrow> profile_ok p \<Longrightarrow> wf_state (userProfile p st)"
  unfolding wf_state_def selection_invariant_def keyed_iff all_profiles_ok_iff userProfile_def
  using obj_values_set[of "id_user p" p "users st"] obj_set_entries[of "id_user p" p "users st"]
  by (auto simp: obj_keys_set)

lemma wf_userProfile_select: "wf_state st \<Longrightarrow> profile_ok p \<Longrightarrow> wf_state (userSelect (id_user p) (userProfile p st))"
  using wf_userProfile[of st p]
  by (auto simp: wf_state_def selection_invariant_def keyed_def userSelect_def userProfile_def obj_keys_set)

lemma wf_userSelect: "wf_state st \<Longrightarrow> i = [] \<or> i \<in> set (obj_keys (users st)) \<Longrightarrow> wf_state (userSelect i st)"
  by (auto simp: wf_state_def selection_invariant_def keyed_def userSelect_def)

lemma wf_userGameProfileSelect:
  assumes "wf_state st" "obj_get (users st) uid = Some u" "pid = [] \<or> pid \<in> set (obj_keys (profiles u))"
  shows "wf_state (userGameProfileSelect uid pid st)"
proof -
  let ?u = "u\<lparr>selectedProfile := pid\<rparr>"
  have ok: "profile_ok ?u" using assms(3) by (auto simp: profile_ok_def)
  have idu: "id_user u = uid" using assms(1,2) by (force simp: wf_state_def keyed_iff dest: obj_get_entry)
  have "userGameProfileSelect uid pid st = userProfile ?u st"
    using assms(2) idu by (simp add: userGameProfileSelect_def userProfile_def)
  then show ?thesis using wf_userProfile[OF assms(1) ok] by simp
qed

lemma wf_userProfileRemove:
  assumes "wf_state st" shows "wf_state (userProfileRemove uid st)"
  using assms obj_delete_values[of uid "users st"] obj_delete_entries[of uid "users st"]
  unfolding wf_state_def selection_invariant_def keyed_iff all_profiles_ok_iff userProfileRemove_def
  by (auto simp: obj_delete_keys)

lemma login_result_ok: "providers_ok s \<Longrightarrow> result_ok (sys_login (resolveSystem s n) options a)"
  by (simp add: providers_ok_def system_ok_def)

lemma refresh_result_ok:
  "providers_ok s \<Longrightarrow> profile_ok u \<Longrightarrow> result_ok (sys_refresh (resolveSystem s n) u a)"
  by (simp add: providers_ok_def system_ok_def)

lemma setSkin_result_ok:
  "providers_ok s \<Longrightarrow> profile_ok u
     \<Longrightarrow> result_ok (sys_setSkin (resolveSystem s n) u g options a)"
  by (simp add: providers_ok_def system_ok_def)

lemma wf_state_lookup: "wf_state st \<Longrightarrow> obj_get (users st) k = Some u \<Longrightarrow> profile_ok u"
  by (auto simp: wf_state_def selection_invariant_def all_profiles_ok_iff dest: obj_get_value)

lemma resolveSystem_same:
  "resolveSystem (s\<lparr>state := st\<rparr>) n = resolveSystem s n"
  "resolveSystem (s\<lparr>loginController := c\<rparr>) n = resolveSystem s n"
  "resolveSystem (s\<lparr>refreshController := c\<rparr>) n = resolveSystem s n"
  "resolveSystem (s\<lparr>setSkinController := c\<rparr>) n = resolveSystem s n"
  "resolveSystem (s\<lparr>providerCalls := pc\<rparr>) n = resolveSystem s n"
  by (simp_all add: resolveSystem_def split: option.splits)

lemma inherited_same:
  "inherited (s\<lparr>state := st\<rparr>) n = inherited s n"
  "inherited (s\<lparr>loginController := c\<rparr>) n = inherited s n"
  "inherited (s\<lparr>refreshController := c\<rparr>) n = inherited s n"
  "inherited (s\<lparr>setSkinController := c\<rparr>) n = inherited s n"
  "inherited (s\<lparr>providerCalls := pc\<rparr>) n = inherited s n"
  by (simp_all add: inherited_def)

lemma providers_ok_same:
  "providers_ok (s\<lparr>state := st\<rparr>) = providers_ok s"
  "providers_ok (s\<lparr>loginController := c\<rparr>) = providers_ok s"
  "providers_ok (s\<lparr>refreshController := c\<rparr>) = providers_ok s"
  "providers_ok (s\<lparr>setSkinController := c\<rparr>) = providers_ok s"
  "providers_ok (s\<lparr>providerCalls := pc\<rparr>) = providers_ok s"
  by (simp_all add: providers_ok_def resolveSystem_same)

lemma providers_ok_register:
  "providers_ok s \<Longrightarrow> system_ok sys \<Longrightarrow> providers_ok (registerAccountSystem name sys s)"
proof -
  assume a: "providers_ok s" "system_ok sys"
  have "system_ok (resolveSystem (registerAccountSystem name sys s) n)" for n
  proof (cases "n = name")
    case True
    then show ?thesis using a(2) by (simp add: resolveSystem_def registerAccountSystem_def)
  next
    case False
    then have "resolveSystem (registerAccountSystem name sys s) n = resolveSystem s n"
      by (simp add: resolveSystem_def registerAccountSystem_def split: option.splits)
    then show ?thesis using a(1) by (simp add: providers_ok_def)
  qed
  then show ?thesis by (simp add: providers_ok_def)
qed

lemma wf_login: assumes "wf_service s" shows "wf_service (snd (login options s))"
proof (cases "inherited s (service options)")
  case True
  then show ?thesis using assms
    by (simp add: login_def login_start_def wf_service_def providers_ok_same)
next
  case False
  let ?out = "sys_login (resolveSystem s (service options)) options False"
  have r: "result_ok ?out" using assms by (simp add: wf_service_def login_result_ok)
  show ?thesis
  proof (cases ?out)
    case (Inl e)
    then show ?thesis using assms False
      by (simp add: login_def login_start_def login_settle_def signal_aborted_def wf_service_def
          providers_ok_same)
  next
    case (Inr p)
    with r have "profile_ok p" by (simp add: result_ok_def)
    with assms have "wf_state (userSelect (id_user p) (userProfile p (state s)))"
      by (simp add: wf_service_def wf_userProfile_select)
    with Inr assms False show ?thesis
      by (simp add: login_def login_start_def login_settle_def signal_aborted_def wf_service_def
          providers_ok_same)
  qed
qed

lemma refreshUser_cases:
  "refreshUser s =
     (case user (state s) of
        None \<Rightarrow> (Inr (), s)
      | Some usr \<Rightarrow>
          if inherited s (authService usr)
          then (Inl TypeError, s\<lparr>refreshController := Some (AbortController False)\<rparr>)
          else (case sys_refresh (resolveSystem s (authService usr)) usr False of
                  Inl e \<Rightarrow>
                    (Inl e, s\<lparr>refreshController := None,
                               providerCalls := providerCalls s @ [RefreshCall (authService usr) usr]\<rparr>)
                | Inr newUser \<Rightarrow>
                    (Inr (), s\<lparr>refreshController := None,
                               providerCalls := providerCalls s @ [RefreshCall (authService usr) usr],
                               state := userProfile newUser (state s)\<rparr>)))"
  by (simp add: refreshUser_def refreshUser_start_def refreshUser_settle_def signal_aborted_def
      Let_def split: option.splits sum.splits)

lemma uploadSkin_cases:
  "uploadSkin options s =
     (case obj_get (users (state s))
             (case userId options of None \<Rightarrow> selectedUser_id (state s) | Some u \<Rightarrow> u) of
        None \<Rightarrow> (Inl TypeError, s)
      | Some usr \<Rightarrow>
          (case obj_get (profiles usr) (profileKey (gameProfileId options) usr) of
             None \<Rightarrow> (Inl TypeError, s)
           | Some gp \<Rightarrow>
               if inherited s (authService usr)
               then (Inl TypeError, s\<lparr>setSkinController := Some (AbortController False)\<rparr>)
               else (case sys_setSkin (resolveSystem s (authService usr)) usr gp
                            (normalizeSlim options) False of
                       Inl e \<Rightarrow>
                         (Inl e, s\<lparr>setSkinController := None,
                                    providerCalls := providerCalls s
                                      @ [SetSkinCall (authService usr) usr gp (normalizeSlim options)]\<rparr>)
                     | Inr data \<Rightarrow>
                         (Inr (), s\<lparr>setSkinController := None,
                                    providerCalls := providerCalls s
                                      @ [SetSkinCall (authService usr) usr gp (normalizeSlim options)],
                                    state := userProfile data (state s)\<rparr>))))"
  by (simp add: uploadSkin_def uploadSkin_start_def uploadSkin_settle_def requireObject_def
      signal_aborted_def Let_def split: option.splits sum.splits)

lemma wf_refreshUser: assumes "wf_service s" shows "wf_service (snd (refreshUser s))"
proof (cases "user (state s)")
  case None
  then show ?thesis using assms by (simp add: refreshUser_cases)
next
  case (Some usr)
  let ?out = "sys_refresh (resolveSystem s (authService usr)) usr False"
  have "profile_ok usr" using assms Some by (auto simp: wf_service_def user_def dest: wf_state_lookup)
  then have r: "result_ok ?out" using assms by (simp add: wf_service_def refresh_result_ok)
  show ?thesis
  proof (cases ?out)
    case (Inl e)
    then show ?thesis using assms Some
      by (simp add: refreshUser_cases wf_service_def providers_ok_same)
  next
    case (Inr p)
    with r have "profile_ok p" by (simp add: result_ok_def)
    with assms have "wf_state (userProfile p (state s))"
      by (simp add: wf_service_def wf_userProfile)
    with Inr assms Some show ?thesis
      by (simp add: refreshUser_cases wf_service_def providers_ok_same)
  qed
qed

lemma wf_uploadSkin: assumes "wf_service s" shows "wf_service (snd (uploadSkin options s))"
proof -
  let ?uid = "case userId options of None \<Rightarrow> selectedUser_id (state s) | Some u \<Rightarrow> u"
  show ?thesis
  proof (cases "obj_get (users (state s)) ?uid")
    case None
    then show ?thesis using assms by (simp add: uploadSkin_cases)
  next
    case (Some usr)
    note u = Some
    show ?thesis
    proof (cases "obj_get (profiles usr) (profileKey (gameProfileId options) usr)")
      case None
      then show ?thesis using assms u by (simp add: uploadSkin_cases)
    next
      case (Some gp)
      let ?out = "sys_setSkin (resolveSystem s (authService usr)) usr gp (normalizeSlim options) False"
      have "profile_ok usr" using assms u by (auto simp: wf_service_def dest: wf_state_lookup)
      then have r: "result_ok ?out" using assms by (simp add: wf_service_def setSkin_result_ok)
      show ?thesis
      proof (cases ?out)
        case (Inl e)
        then show ?thesis using assms u Some
          by (simp add: uploadSkin_cases wf_service_def providers_ok_same)
      next
        case (Inr p)
        with r have "profile_ok p" by (simp add: result_ok_def)
        with assms have "wf_state (userProfile p (state s))"
          by (simp add: wf_service_def wf_userProfile)
        with Inr assms u Some show ?thesis
          by (simp add: uploadSkin_cases wf_service_def providers_ok_same)
      qed
    qed
  qed
qed

lemma wf_selectUser:
  assumes "wf_service s" "uid = [] \<or> uid \<in> set (obj_keys (users (state s)))"
  shows "wf_service (snd (selectUser uid s))"
proof (cases "uid = selectedUser_id (state s)")
  case True
  then show ?thesis using assms by (simp add: selectUser_def requireString_def split: if_splits)
next
  case False
  have "wf_service (s\<lparr>state := userSelect uid (state s)\<rparr>)"
    using assms by (simp add: wf_service_def wf_userSelect providers_ok_same)
  then show ?thesis using False assms(1)
    by (simp add: selectUser_def requireString_def wf_refreshUser)
qed

lemma wf_selectGameProfile:
  assumes "wf_service s" "targets_exist (SelectGameProfile pid) s"
  shows "wf_service (snd (selectGameProfile pid s))"
proof (cases "user (state s)")
  case None
  then show ?thesis using assms by (simp add: selectGameProfile_def requireString_def)
next
  case (Some usr)
  then have g: "obj_get (users (state s)) (selectedUser_id (state s)) = Some usr"
    by (simp add: user_def)
  have "pid = [] \<or> pid \<in> set (obj_keys (profiles usr))" using assms(2) Some by simp
  with assms(1) g have "wf_state (userGameProfileSelect (selectedUser_id (state s)) pid (state s))"
    by (simp add: wf_service_def wf_userGameProfileSelect)
  then show ?thesis using assms(1) Some
    by (simp add: selectGameProfile_def requireString_def wf_service_def providers_ok_same)
qed

lemma find_Some_set: "find P xs = Some x \<Longrightarrow> x \<in> set xs"
  by (induction xs) (auto split: if_splits)

lemma wf_removeUserProfile: assumes "wf_service s" shows "wf_service (snd (removeUserProfile uid s))"
proof -
  let ?st = "state s"
  let ?st1 = "if selectedUser_id ?st = uid
              then (case find (\<lambda>u. selectedProfile u \<noteq> []) (obj_values (users ?st)) of
                      None \<Rightarrow> ?st | Some usr \<Rightarrow> userSelect (id_user usr) ?st)
              else ?st"
  have "wf_state ?st1"
  proof (cases "find (\<lambda>u. selectedProfile u \<noteq> []) (obj_values (users ?st))")
    case None
    then show ?thesis using assms by (simp add: wf_service_def)
  next
    case (Some usr)
    then have "usr \<in> set (obj_values (users ?st))" by (rule find_Some_set)
    with assms have "id_user usr \<in> set (obj_keys (users ?st))"
      by (simp add: wf_service_def wf_state_def keyed_value_key)
    with assms have "wf_state (userSelect (id_user usr) ?st)" by (simp add: wf_service_def wf_userSelect)
    with Some assms show ?thesis by (simp add: wf_service_def)
  qed
  then have "wf_state (userProfileRemove uid ?st1)" by (rule wf_userProfileRemove)
  then show ?thesis using assms
    by (simp add: removeUserProfile_def requireString_def Let_def wf_service_def providers_ok_same)
qed

lemma wf_perform: "wf_service s \<Longrightarrow> targets_exist c s \<Longrightarrow> wf_service (perform c s)"
proof (cases c)
  case (RegisterAccountSystem name sys)
  assume "wf_service s" "targets_exist c s"
  with RegisterAccountSystem show ?thesis
    using providers_ok_register[of s sys name] by (simp add: wf_service_def registerAccountSystem_def)
next
  case (SetUserProfile p)
  assume "wf_service s" "targets_exist c s"
  with SetUserProfile show ?thesis
    by (simp add: wf_service_def setUserProfile_def wf_userProfile providers_ok_same)
qed (simp_all add: wf_login wf_uploadSkin wf_refreshUser wf_selectUser wf_selectGameProfile
      wf_removeUserProfile, simp_all add: wf_service_def abortLogin_def abortRefresh_def providers_ok_same)

lemma wf_run: "wf_service s \<Longrightarrow> admissible cs s \<Longrightarrow> wf_service (run cs s)"
  by (induction cs arbitrary: s) (simp_all add: wf_perform)

section \<open>The selection invariant over sequences of calls\<close>

lemma system_ok_prototype_member: "system_ok prototype_member"
  by (simp add: system_ok_def prototype_member_def result_ok_def)

lemma system_ok_directory: "system_ok directory"
  by (simp add: system_ok_def directory_def result_ok_def profile_ok_def acct_A_def acct_B_def
      obj_eval)

lemma providers_ok_directory: "providers_ok (service_of directory st)"
  by (simp add: providers_ok_def resolveSystem_def service_of_def system_ok_directory
      system_ok_prototype_member)

text \<open>
  C1, as amended. Start from a service whose state satisfies the selection invariant, with
  every account stored under its own id and well-formed providers. After any sequence of
  calls in which \<open>selectUser\<close> is given the empty string or the id of an existing account,
  \<open>selectGameProfile\<close> the empty string or the id of a profile of the selected account,
  and \<open>setUserProfile\<close> / \<open>registerAccountSystem\<close> a well-formed account / provider,
  the selected account id is empty or a key of the users, and the selected profile of
  every account is empty or a key of its profiles.
\<close>

theorem selection_invariant_reachable:
  assumes "selection_invariant (state s0)" and "keyed (state s0)" and "providers_ok s0"
    and "admissible cs s0"
  shows "selection_invariant (state (run cs s0))"
proof -
  from assms(1-3) have "wf_service s0" by (simp add: wf_service_def wf_state_def)
  then have "wf_service (run cs s0)" using assms(4) by (rule wf_run)
  then show ?thesis by (simp add: wf_service_def wf_state_def)
qed

text \<open>The theorem at a run from the empty state: log in as A, select A's profile, call
  \<open>selectUser\<close> with the empty string and then with A.\<close>

theorem selection_invariant_reachable_witness:
  "admissible [Login login_A, SelectGameProfile ''p1'', SelectUser [], SelectUser ''A'']
      (service_of directory emptyState)
   \<and> selection_invariant
        (state (run [Login login_A, SelectGameProfile ''p1'', SelectUser [], SelectUser ''A'']
           (service_of directory emptyState)))"
proof -
  let ?s0 = "service_of directory emptyState"
  let ?cs = "[Login login_A, SelectGameProfile ''p1'', SelectUser [], SelectUser ''A'']"
  have a: "admissible ?cs ?s0"
    by (simp add: login_def login_start_def login_settle_def selectGameProfile_def
        selectUser_def refreshUser_def refreshUser_start_def refreshUser_settle_def
        requireString_def service_of_def emptyState_def directory_def login_A_def
        resolveSystem_def signal_aborted_def userSelect_def userProfile_def user_def
        obj_get_def obj_eval acct_A_def userGameProfileSelect_def inherited_def
        object_prototype_names_def)
  have i: "selection_invariant (state ?s0)" "keyed (state ?s0)"
    by (simp_all add: selection_invariant_def keyed_def service_of_def emptyState_def
        obj_eval)
  from selection_invariant_reachable[OF i providers_ok_directory a] a show ?thesis by simp
qed

text \<open>
  C1 as stated fails: \<open>selectUser\<close> and \<open>selectGameProfile\<close> store the id they are
  given without looking it up, and a provider's account is stored as returned. From states
  that satisfy the invariant, \<open>selectUser("ghost")\<close> selects an account that does not
  exist, \<open>selectGameProfile("ghost")\<close> selects a profile the account does not have, and
  a login with a provider returning an ill-formed account stores it.
\<close>

theorem selection_invariant_counterexample:
  "selection_invariant (state (service_of offline emptyState))
   \<and> \<not> selection_invariant (state (run [SelectUser ''ghost''] (service_of offline emptyState)))
   \<and> selection_invariant (state (service_of offline state_AB))
   \<and> \<not> selection_invariant
         (state (run [SelectGameProfile ''ghost''] (service_of offline state_AB)))
   \<and> \<not> selection_invariant (state (run [Login login_A] (service_of rogue emptyState)))"
  by (simp add: selection_invariant_def selectUser_def selectGameProfile_def login_def
      login_start_def login_settle_def refreshUser_def refreshUser_start_def
      requireString_def service_of_def emptyState_def state_AB_def offline_def rogue_def
      directory_def login_A_def resolveSystem_def signal_aborted_def userSelect_def
      userProfile_def user_def obj_get_def obj_eval acct_A_def acct_B_def
      userGameProfileSelect_def profile_ok_def inherited_def object_prototype_names_def)

section \<open>Cancelling a login\<close>

text \<open>
  C3. A login is started, \<open>abortLogin()\<close> is called while the provider call is pending
  (so the signal has fired when it settles) and the provider fails with a cancellation
  error \<open>e\<close>. Then the abort did reach the signal, login rejects with \<open>e\<close>, the
  session state is the one before the call (no account created or replaced, selection
  unchanged) and the login controller is cleared.
\<close>

theorem login_cancelled_keeps_state:
  assumes "sys_login (resolveSystem s (service options)) options True = Inl e"
    and "cancellation_kind e"
  shows "case login_start options s of
           (system, s1) \<Rightarrow>
             signal_aborted (loginController (abortLogin s1))
             \<and> fst (login_settle system options (abortLogin s1)) = Inl e
             \<and> state (snd (login_settle system options (abortLogin s1))) = state s
             \<and> loginController (snd (login_settle system options (abortLogin s1))) = None"
  using assms(1)
  by (simp add: login_start_def login_settle_def abortLogin_def abort_opt_def abort_def
      signal_aborted_def)

text \<open>The theorem at a login against a provider that is offline, with accounts A and B
  present.\<close>

theorem login_cancelled_keeps_state_witness:
  "cancellation_kind AbortError
   \<and> (case login_start login_A (service_of offline state_AB) of
           (system, s1) \<Rightarrow>
             signal_aborted (loginController (abortLogin s1))
             \<and> fst (login_settle system login_A (abortLogin s1)) = Inl AbortError
             \<and> state (snd (login_settle system login_A (abortLogin s1))) = state_AB
             \<and> loginController (snd (login_settle system login_A (abortLogin s1))) = None)"
proof -
  have h: "sys_login (resolveSystem (service_of offline state_AB) (service login_A)) login_A True
             = Inl AbortError"
    by (simp add: resolveSystem_def service_of_def offline_def login_A_def
        object_prototype_names_def)
  have k: "cancellation_kind AbortError" by (simp add: cancellation_kind_def)
  from login_cancelled_keeps_state[OF h k] k show ?thesis by (simp add: service_of_def)
qed

section \<open>Uploading a skin for an account that does not exist\<close>

text \<open>
  C9. When the resolved user id (\<open>options.userId\<close>, or the selected account id when it
  is not given) is not a key of the users, \<open>uploadSkin\<close> fails with a TypeError and the
  service is unchanged: no controller is created, no provider is called, no state is
  mutated.
\<close>

theorem uploadSkin_unknown_user:
  assumes "obj_get (users (state s))
             (case userId options of None \<Rightarrow> selectedUser_id (state s) | Some u \<Rightarrow> u) = None"
  shows "uploadSkin options s = (Inl TypeError, s)"
  using assms by (simp add: uploadSkin_cases)

text \<open>The theorem with nothing selected and no \<open>userId\<close>, and with a \<open>userId\<close> that
  is not an account.\<close>

theorem uploadSkin_unknown_user_witness:
  "uploadSkin \<lparr>gameProfileId = None, userId = None, skin = None\<rparr> (service_of directory emptyState)
     = (Inl TypeError, service_of directory emptyState)
   \<and> uploadSkin \<lparr>gameProfileId = None, userId = Some ''C'', skin = None\<rparr>
        (service_of directory state_AB)
     = (Inl TypeError, service_of directory state_AB)"
proof -
  have a: "obj_get (users (state (service_of directory emptyState)))
             (case userId \<lparr>gameProfileId = None, userId = None, skin = None\<rparr> of
                None \<Rightarrow> selectedUser_id (state (service_of directory emptyState)) | Some u \<Rightarrow> u) = None"
    by (simp add: service_of_def emptyState_def obj_get_def)
  have b: "obj_get (users (state (service_of directory state_AB)))
             (case userId \<lparr>gameProfileId = None, userId = Some ''C'', skin = None\<rparr> of
                None \<Rightarrow> selectedUser_id (state (service_of directory state_AB)) | Some u \<Rightarrow> u) = None"
    by (simp add: service_of_def emptyState_def state_AB_def obj_get_def)
  from uploadSkin_unknown_user[OF a] uploadSkin_unknown_user[OF b] show ?thesis by simp
qed

section \<open>Default resolution of the skin upload\<close>







section \<open>Selecting an account\<close>

text \<open>
  C6, as amended. \<open>selectUser(id)\<close> with the id already selected changes nothing and
  calls no provider. Otherwise, validation passed, the selection is set to the id, whether
  or not an account with that id exists, and \<open>refreshUser()\<close> is run before returning:
  with no account under the id, no provider is called and the call resolves with nothing
  refreshed; with an account whose provider refresh succeeds, the call resolves after
  exactly one provider call with the refreshed account stored (it is the selected account
  read back when the provider returns it under the same id); with an account whose
  provider refresh fails, the call rejects with the provider's error, the selection
  already moved and the account as it was; with an account whose provider name finds
  an inherited member of the registry object, the call rejects with a TypeError, the
  selection moved and the refresh controller left in its slot.
\<close>

theorem selectUser_outcomes:
  "(uid = selectedUser_id (state s) \<longrightarrow> selectUser uid s = (requireString uid, s))
   \<and> (uid \<noteq> selectedUser_id (state s) \<and> requireString uid = Inl e \<longrightarrow>
        selectUser uid s = (Inl e, s))
   \<and> (uid \<noteq> selectedUser_id (state s) \<and> requireString uid = Inr () \<longrightarrow>
        selectUser uid s = refreshUser (s\<lparr>state := userSelect uid (state s)\<rparr>))
   \<and> (uid \<noteq> selectedUser_id (state s) \<and> requireString uid = Inr ()
        \<and> obj_get (users (state s)) uid = None \<longrightarrow>
        selectUser uid s = (Inr (), s\<lparr>state := userSelect uid (state s)\<rparr>))
   \<and> (uid \<noteq> selectedUser_id (state s) \<and> requireString uid = Inr ()
        \<and> obj_get (users (state s)) uid = Some usr \<and> inherited s (authService usr) \<longrightarrow>
        selectUser uid s
          = (Inl TypeError, s\<lparr>state := userSelect uid (state s),
                               refreshController := Some (AbortController False)\<rparr>))
   \<and> (uid \<noteq> selectedUser_id (state s) \<and> requireString uid = Inr ()
        \<and> obj_get (users (state s)) uid = Some usr \<and> \<not> inherited s (authService usr)
        \<and> sys_refresh (resolveSystem s (authService usr)) usr False = Inl e \<longrightarrow>
        selectUser uid s
          = (Inl e, s\<lparr>state := userSelect uid (state s),
                       refreshController := None,
                       providerCalls := providerCalls s @ [RefreshCall (authService usr) usr]\<rparr>))
   \<and> (uid \<noteq> selectedUser_id (state s) \<and> requireString uid = Inr ()
        \<and> obj_get (users (state s)) uid = Some usr \<and> \<not> inherited s (authService usr)
        \<and> sys_refresh (resolveSystem s (authService usr)) usr False = Inr newUser \<longrightarrow>
        selectUser uid s
          = (Inr (), s\<lparr>state := userProfile newUser (userSelect uid (state s)),
                       refreshController := None,
                       providerCalls := providerCalls s @ [RefreshCall (authService usr) usr]\<rparr>)
        \<and> (id_user newUser = uid \<longrightarrow> user (state (snd (selectUser uid s))) = Some newUser))"
proof -
  let ?s1 = "s\<lparr>state := userSelect uid (state s)\<rparr>"
  have same: "selectUser uid s = (requireString uid, s)" if "uid = selectedUser_id (state s)"
    using that by (simp add: selectUser_def requireString_def)
  have bad: "selectUser uid s = (Inl e, s)" if "requireString uid = Inl e"
    using that by (simp add: selectUser_def)
  have go: "selectUser uid s = refreshUser ?s1"
    if "uid \<noteq> selectedUser_id (state s)" "requireString uid = Inr ()"
    using that by (simp add: selectUser_def)
  have u: "user (state ?s1) = obj_get (users (state s)) uid"
    by (simp add: user_def userSelect_def)
  have none: "refreshUser ?s1 = (Inr (), ?s1)" if "obj_get (users (state s)) uid = None"
    using that u by (simp add: refreshUser_cases)
  have inh: "refreshUser ?s1
               = (Inl TypeError, s\<lparr>state := userSelect uid (state s),
                                    refreshController := Some (AbortController False)\<rparr>)"
    if "obj_get (users (state s)) uid = Some usr" "inherited s (authService usr)"
    using that u by (simp add: refreshUser_cases inherited_same)
  have fail: "refreshUser ?s1
                = (Inl e, s\<lparr>state := userSelect uid (state s), refreshController := None,
                             providerCalls := providerCalls s @ [RefreshCall (authService usr) usr]\<rparr>)"
    if "obj_get (users (state s)) uid = Some usr" "\<not> inherited s (authService usr)"
      "sys_refresh (resolveSystem s (authService usr)) usr False = Inl e"
    using that u by (simp add: refreshUser_cases inherited_same resolveSystem_same)
  have ok: "refreshUser ?s1
              = (Inr (), s\<lparr>state := userProfile newUser (userSelect uid (state s)),
                           refreshController := None,
                           providerCalls := providerCalls s @ [RefreshCall (authService usr) usr]\<rparr>)"
    if "obj_get (users (state s)) uid = Some usr" "\<not> inherited s (authService usr)"
      "sys_refresh (resolveSystem s (authService usr)) usr False = Inr newUser"
    using that u by (simp add: refreshUser_cases inherited_same resolveSystem_same)
  have seen: "user (state (snd (refreshUser ?s1))) = Some newUser"
    if "obj_get (users (state s)) uid = Some usr" "\<not> inherited s (authService usr)"
      "sys_refresh (resolveSystem s (authService usr)) usr False = Inr newUser"
      "id_user newUser = uid"
  proof -
    from ok[OF that(1-3)]
    have "state (snd (refreshUser ?s1)) = userProfile newUser (userSelect uid (state s))"
      by simp
    then show ?thesis using that(4)
      by (simp add: user_def userProfile_def userSelect_def obj_get_set_same)
  qed
  show ?thesis
  proof (intro conjI impI)
    assume "uid = selectedUser_id (state s)"
    then show "selectUser uid s = (requireString uid, s)" by (rule same)
  next
    assume "uid \<noteq> selectedUser_id (state s) \<and> requireString uid = Inl e"
    then show "selectUser uid s = (Inl e, s)" using bad by blast
  next
    assume "uid \<noteq> selectedUser_id (state s) \<and> requireString uid = Inr ()"
    then show "selectUser uid s = refreshUser ?s1" using go by blast
  next
    assume "uid \<noteq> selectedUser_id (state s) \<and> requireString uid = Inr ()
        \<and> obj_get (users (state s)) uid = None"
    then show "selectUser uid s = (Inr (), ?s1)" using go none by simp
  next
    assume "uid \<noteq> selectedUser_id (state s) \<and> requireString uid = Inr ()
        \<and> obj_get (users (state s)) uid = Some usr \<and> inherited s (authService usr)"
    then show "selectUser uid s
          = (Inl TypeError, s\<lparr>state := userSelect uid (state s),
                               refreshController := Some (AbortController False)\<rparr>)"
      using go inh by simp
  next
    assume "uid \<noteq> selectedUser_id (state s) \<and> requireString uid = Inr ()
        \<and> obj_get (users (state s)) uid = Some usr \<and> \<not> inherited s (authService usr)
        \<and> sys_refresh (resolveSystem s (authService usr)) usr False = Inl e"
    then show "selectUser uid s
          = (Inl e, s\<lparr>state := userSelect uid (state s),
                       refreshController := None,
                       providerCalls := providerCalls s @ [RefreshCall (authService usr) usr]\<rparr>)"
      using go fail by simp
  next
    assume h: "uid \<noteq> selectedUser_id (state s) \<and> requireString uid = Inr ()
        \<and> obj_get (users (state s)) uid = Some usr \<and> \<not> inherited s (authService usr)
        \<and> sys_refresh (resolveSystem s (authService usr)) usr False = Inr newUser"
    then show "selectUser uid s
          = (Inr (), s\<lparr>state := userProfile newUser (userSelect uid (state s)),
                       refreshController := None,
                       providerCalls := providerCalls s @ [RefreshCall (authService usr) usr]\<rparr>)"
      using go ok by simp
    show "user (state (snd (selectUser uid s))) = Some newUser" if "id_user newUser = uid"
      using h go seen that by simp
  qed
qed

text \<open>The theorem with A selected, against the directory provider: selecting A, the empty
  string, an id that is no account, and B; against the offline provider: selecting B; and
  selecting an account whose provider is named \<open>constructor\<close>.\<close>

theorem selectUser_outcomes_witness:
  "selectUser ''A'' (service_of directory state_AB) = (Inr (), service_of directory state_AB)
   \<and> selectUser [] (service_of directory state_AB)
       = (Inl RequireError, service_of directory state_AB)
   \<and> selectUser ''ghost'' (service_of directory state_AB)
       = (Inr (), (service_of directory state_AB)\<lparr>state := userSelect ''ghost'' state_AB\<rparr>)
   \<and> selectUser ''B'' (service_of directory state_AB)
       = (Inr (), (service_of directory state_AB)
            \<lparr>state := userProfile (acct_B\<lparr>username := ''renewed''\<rparr>) (userSelect ''B'' state_AB),
             refreshController := None,
             providerCalls := [RefreshCall ''microsoft'' acct_B]\<rparr>)
   \<and> user (state (snd (selectUser ''B'' (service_of directory state_AB))))
       = Some (acct_B\<lparr>username := ''renewed''\<rparr>)
   \<and> selectUser ''B'' (service_of offline state_AB)
       = (Inl (ProviderError ''offline''),
          (service_of offline state_AB)
            \<lparr>state := userSelect ''B'' state_AB, refreshController := None,
             providerCalls := [RefreshCall ''microsoft'' acct_B]\<rparr>)
   \<and> selectUser ''B'' (service_of directory state_odd)
       = (Inl TypeError,
          (service_of directory state_odd)
            \<lparr>state := userSelect ''B'' state_odd,
             refreshController := Some (AbortController False)\<rparr>)"
proof -
  let ?s = "service_of directory state_AB"
  let ?f = "service_of offline state_AB"
  let ?o = "service_of directory state_odd"
  let ?B = "acct_B\<lparr>username := ''renewed''\<rparr>"
  have st: "state ?s = state_AB" "state ?f = state_AB" "state ?o = state_odd"
    "providerCalls ?s = []" "providerCalls ?f = []"
    by (simp_all add: service_of_def)
  have sel: "''A'' = selectedUser_id (state ?s)" "''B'' \<noteq> selectedUser_id (state ?s)"
    "''ghost'' \<noteq> selectedUser_id (state ?s)" "[] \<noteq> selectedUser_id (state ?s)"
    "''B'' \<noteq> selectedUser_id (state ?f)" "''B'' \<noteq> selectedUser_id (state ?o)"
    by (simp_all add: service_of_def state_AB_def state_odd_def emptyState_def)
  have rq: "requireString ''A'' = Inr ()" "requireString ''B'' = Inr ()"
    "requireString ''ghost'' = Inr ()" "requireString [] = Inl RequireError"
    by (simp_all add: requireString_def)
  have look: "obj_get (users (state ?s)) ''ghost'' = None"
    "obj_get (users (state ?s)) ''B'' = Some acct_B"
    "obj_get (users (state ?f)) ''B'' = Some acct_B"
    "obj_get (users (state ?o)) ''B'' = Some (acct_B\<lparr>authService := ''constructor''\<rparr>)"
    by (simp_all add: service_of_def state_AB_def state_odd_def emptyState_def obj_get_def)
  have inh: "\<not> inherited ?s (authService acct_B)" "\<not> inherited ?f (authService acct_B)"
    "inherited ?o (authService (acct_B\<lparr>authService := ''constructor''\<rparr>))"
    by (simp_all add: inherited_def service_of_def acct_B_def object_prototype_names_def)
  have out: "sys_refresh (resolveSystem ?s (authService acct_B)) acct_B False = Inr ?B"
    "sys_refresh (resolveSystem ?f (authService acct_B)) acct_B False
       = Inl (ProviderError ''offline'')"
    by (simp_all add: resolveSystem_def service_of_def directory_def offline_def acct_B_def
        object_prototype_names_def)
  have ids: "id_user ?B = ''B''" "authService acct_B = ''microsoft''"
    by (simp_all add: acct_B_def)
  have r1: "selectUser ''A'' ?s = (Inr (), ?s)"
    using selectUser_outcomes[where uid = "''A''" and s = ?s, THEN conjunct1] sel(1) rq(1)
    by simp
  have r2: "selectUser [] ?s = (Inl RequireError, ?s)"
    using selectUser_outcomes[where uid = "[]" and s = ?s and e = RequireError,
        THEN conjunct2, THEN conjunct1] sel(4) rq(4) by blast
  have r3: "selectUser ''ghost'' ?s = (Inr (), ?s\<lparr>state := userSelect ''ghost'' state_AB\<rparr>)"
    using selectUser_outcomes[where uid = "''ghost''" and s = ?s,
        THEN conjunct2, THEN conjunct2, THEN conjunct2, THEN conjunct1] sel(3) rq(3) look(1)
    by (simp add: st)
  note tB = selectUser_outcomes[where uid = "''B''" and s = ?s and usr = acct_B
      and newUser = ?B, THEN conjunct2, THEN conjunct2, THEN conjunct2, THEN conjunct2,
      THEN conjunct2, THEN conjunct2]
  have pB: "''B'' \<noteq> selectedUser_id (state ?s) \<and> requireString ''B'' = Inr ()
      \<and> obj_get (users (state ?s)) ''B'' = Some acct_B \<and> \<not> inherited ?s (authService acct_B)
      \<and> sys_refresh (resolveSystem ?s (authService acct_B)) acct_B False = Inr ?B"
    using sel(2) rq(2) look(2) inh(1) out(1) by blast
  have r4: "selectUser ''B'' ?s
       = (Inr (), ?s\<lparr>state := userProfile ?B (userSelect ''B'' state_AB),
                      refreshController := None,
                      providerCalls := [RefreshCall ''microsoft'' acct_B]\<rparr>)"
    using tB[THEN mp, OF pB, THEN conjunct1] by (simp add: st ids)
  have r5: "user (state (snd (selectUser ''B'' ?s))) = Some ?B"
    using tB[THEN mp, OF pB, THEN conjunct2] ids(1) by blast
  have pF: "''B'' \<noteq> selectedUser_id (state ?f) \<and> requireString ''B'' = Inr ()
      \<and> obj_get (users (state ?f)) ''B'' = Some acct_B \<and> \<not> inherited ?f (authService acct_B)
      \<and> sys_refresh (resolveSystem ?f (authService acct_B)) acct_B False
          = Inl (ProviderError ''offline'')"
    using sel(5) rq(2) look(3) inh(2) out(2) by blast
  have r6: "selectUser ''B'' ?f
       = (Inl (ProviderError ''offline''),
          ?f\<lparr>state := userSelect ''B'' state_AB, refreshController := None,
              providerCalls := [RefreshCall ''microsoft'' acct_B]\<rparr>)"
    using selectUser_outcomes[where uid = "''B''" and s = ?f and usr = acct_B
        and e = "ProviderError ''offline''", THEN conjunct2, THEN conjunct2, THEN conjunct2,
        THEN conjunct2, THEN conjunct2, THEN conjunct1, THEN mp, OF pF]
    by (simp add: st ids)
  have pO: "''B'' \<noteq> selectedUser_id (state ?o) \<and> requireString ''B'' = Inr ()
      \<and> obj_get (users (state ?o)) ''B'' = Some (acct_B\<lparr>authService := ''constructor''\<rparr>)
      \<and> inherited ?o (authService (acct_B\<lparr>authService := ''constructor''\<rparr>))"
    using sel(6) rq(2) look(4) inh(3) by blast
  have r7: "selectUser ''B'' ?o
       = (Inl TypeError, ?o\<lparr>state := userSelect ''B'' state_odd,
                             refreshController := Some (AbortController False)\<rparr>)"
    using selectUser_outcomes[where uid = "''B''" and s = ?o
        and usr = "acct_B\<lparr>authService := ''constructor''\<rparr>", THEN conjunct2, THEN conjunct2,
        THEN conjunct2, THEN conjunct2, THEN conjunct1, THEN mp, OF pO]
    by (simp add: st)
  from r1 r2 r3 r4 r5 r6 r7 show ?thesis by blast
qed

text \<open>
  C6 as stated fails: the caller need not observe a refreshed profile when the call
  completes. \<open>selectUser("ghost")\<close>, with no such account, resolves with the selection
  moved, no provider called and no selected account to read; and when the provider's
  refresh fails, \<open>selectUser("B")\<close> rejects with the selection already on B and B's
  account as it was.
\<close>

theorem selectUser_counterexample:
  "''ghost'' \<noteq> selectedUser_id state_AB
   \<and> fst (selectUser ''ghost'' (service_of directory state_AB)) = Inr ()
   \<and> selectedUser_id (state (snd (selectUser ''ghost'' (service_of directory state_AB))))
       = ''ghost''
   \<and> providerCalls (snd (selectUser ''ghost'' (service_of directory state_AB))) = []
   \<and> user (state (snd (selectUser ''ghost'' (service_of directory state_AB)))) = None
   \<and> fst (selectUser ''B'' (service_of offline state_AB)) = Inl (ProviderError ''offline'')
   \<and> selectedUser_id (state (snd (selectUser ''B'' (service_of offline state_AB)))) = ''B''
   \<and> user (state (snd (selectUser ''B'' (service_of offline state_AB)))) = Some acct_B"
  by (simp add: selectUser_def requireString_def refreshUser_cases user_def userSelect_def
      service_of_def state_AB_def emptyState_def obj_get_def acct_B_def acct_A_def
      resolveSystem_def offline_def inherited_def object_prototype_names_def)

section \<open>Aborting\<close>

lemma perform_keeps_skin_signal:
  "\<not> signal_aborted (setSkinController s) \<Longrightarrow> \<not> signal_aborted (setSkinController (perform c s))"
proof (cases c)
  case (UploadSkin options)
  assume "\<not> signal_aborted (setSkinController s)"
  then show ?thesis using UploadSkin
    by (auto simp: uploadSkin_cases signal_aborted_def split: option.splits sum.splits)
next
  case (SelectUser uid)
  assume "\<not> signal_aborted (setSkinController s)"
  then show ?thesis using SelectUser
    by (auto simp: selectUser_def requireString_def refreshUser_cases
        split: option.splits sum.splits)
qed (auto simp: login_def login_start_def login_settle_def refreshUser_cases
      selectGameProfile_def removeUserProfile_def requireString_def abortLogin_def
      abortRefresh_def registerAccountSystem_def setUserProfile_def Let_def
      split: option.splits sum.splits)

text \<open>
  C4. \<open>abortLogin()\<close> and \<open>abortRefresh()\<close> signal the controller of their slot when
  there is one and change nothing when there is none. Nothing signals the skin-upload
  controller: after any of the calls of \<open>perform\<close>, a skin-upload signal that had not
  fired still has not (the class has no \<open>abortSkinUpload\<close>; its remaining methods, for
  the endpoint list, saving a skin file and reading, touch no controller).
\<close>

theorem abort_signals_login_and_refresh_only:
  "(loginController s = None \<longrightarrow> abortLogin s = s)
   \<and> (loginController s \<noteq> None \<longrightarrow>
        abortLogin s = s\<lparr>loginController := Some (AbortController True)\<rparr>)
   \<and> (refreshController s = None \<longrightarrow> abortRefresh s = s)
   \<and> (refreshController s \<noteq> None \<longrightarrow>
        abortRefresh s = s\<lparr>refreshController := Some (AbortController True)\<rparr>)
   \<and> (\<not> signal_aborted (setSkinController s) \<longrightarrow>
        \<not> signal_aborted (setSkinController (perform c s)))"
  using perform_keeps_skin_signal[of s c]
  by (auto simp: abortLogin_def abortRefresh_def abort_opt_def abort_def)

text \<open>The theorem with a login and a skin upload in flight, and with a refresh in flight.\<close>

theorem abort_signals_login_and_refresh_only_witness:
  "abortLogin skin_in_flight = skin_in_flight\<lparr>loginController := Some (AbortController True)\<rparr>
   \<and> abortRefresh skin_in_flight = skin_in_flight
   \<and> \<not> signal_aborted (setSkinController (perform AbortLogin skin_in_flight))
   \<and> abortLogin refresh_in_flight = refresh_in_flight
   \<and> abortRefresh refresh_in_flight
       = refresh_in_flight\<lparr>refreshController := Some (AbortController True)\<rparr>
   \<and> \<not> signal_aborted (setSkinController (perform AbortRefresh refresh_in_flight))"
proof -
  have a: "loginController skin_in_flight \<noteq> None" "refreshController skin_in_flight = None"
    "\<not> signal_aborted (setSkinController skin_in_flight)"
    by (simp_all add: skin_in_flight_def service_of_def signal_aborted_def)
  have b: "loginController refresh_in_flight = None" "refreshController refresh_in_flight \<noteq> None"
    "\<not> signal_aborted (setSkinController refresh_in_flight)"
    by (simp_all add: refresh_in_flight_def service_of_def signal_aborted_def)
  from abort_signals_login_and_refresh_only[of skin_in_flight AbortLogin]
    abort_signals_login_and_refresh_only[of refresh_in_flight AbortRefresh] a b
  show ?thesis by blast
qed

section \<open>Reading the file store\<close>

lemma copyLegacy_find:
  "copyLegacy path ps fs
     = (case find (can_copy path fs) ps of
          None \<Rightarrow> fs
        | Some p \<Rightarrow> (case copyFile p path fs of Inl e \<Rightarrow> fs | Inr fs1 \<Rightarrow> fs1))"
  by (induction ps) (simp_all add: can_copy_def split: sum.splits)

lemma copyFile_result:
  "copyFile p path fs = Inr fs1 \<Longrightarrow>
     \<exists>content. files fs p = Some content \<and> \<not> io_fault fs path
       \<and> fs1 = fs\<lparr>files := (files fs)(path \<mapsto> content), copyLog := copyLog fs @ [(p, path)]\<rparr>"
  by (auto simp: copyFile_def split: option.splits if_splits)

lemma copyLegacy_cases:
  "copyLegacy path ps fs = fs
   \<or> (\<exists>p content. find (can_copy path fs) ps = Some p \<and> files fs p = Some content
        \<and> \<not> io_fault fs path
        \<and> copyLegacy path ps fs
            = fs\<lparr>files := (files fs)(path \<mapsto> content), copyLog := copyLog fs @ [(p, path)]\<rparr>)"
proof (cases "find (can_copy path fs) ps")
  case None
  then show ?thesis by (simp add: copyLegacy_find)
next
  case (Some p)
  show ?thesis
  proof (cases "copyFile p path fs")
    case (Inl e)
    with Some show ?thesis by (simp add: copyLegacy_find)
  next
    case (Inr fs1)
    from copyFile_result[OF Inr] Some Inr show ?thesis by (auto simp: copyLegacy_find)
  qed
qed

lemma find_can_copy: "find (can_copy path fs) ps = Some p \<Longrightarrow> can_copy path fs p"
  by (induction ps) (auto split: if_splits)

lemma read_snd:
  "snd (safeFile_read d path ps fs) = (if missing path fs then copyLegacy path ps fs else fs)"
  by (simp add: safeFile_read_def Let_def)

lemma read_present: "\<not> missing path fs \<Longrightarrow> snd (safeFile_read d path ps fs) = fs"
  by (simp add: read_snd)

lemma read_none:
  "missing path fs \<Longrightarrow> find (can_copy path fs) ps = None \<Longrightarrow> safeFile_read d path ps fs = (d [], fs)"
  by (simp add: safeFile_read_def copyLegacy_find readFile_def missing_def)

lemma read_some:
  assumes "missing path fs" "find (can_copy path fs) ps = Some p" "files fs p = Some content"
  shows "safeFile_read d path ps fs
           = (d content, fs\<lparr>files := (files fs)(path \<mapsto> content),
                             copyLog := copyLog fs @ [(p, path)]\<rparr>)"
proof -
  from find_can_copy[OF assms(2)] obtain fs1 where c: "copyFile p path fs = Inr fs1"
    by (auto simp: can_copy_def split: sum.splits)
  from copyFile_result[OF c] assms(3)
  have f: "\<not> io_fault fs path"
    "fs1 = fs\<lparr>files := (files fs)(path \<mapsto> content), copyLog := copyLog fs @ [(p, path)]\<rparr>"
    by auto
  show ?thesis using assms(1,2) c f
    by (simp add: safeFile_read_def copyLegacy_find readFile_def)
qed

lemma read_still_missing:
  "files (snd (safeFile_read d path ps fs)) path = None \<Longrightarrow> fst (safeFile_read d path ps fs) = d []"
  by (simp add: safeFile_read_def readFile_def Let_def)

lemma read_fst:
  "fst (safeFile_read d path ps fs)
     = d (case readFile path (snd (safeFile_read d path ps fs)) of Inl e \<Rightarrow> [] | Inr b \<Rightarrow> b)"
  by (simp add: safeFile_read_def Let_def)

lemma read_again:
  assumes "\<not> missing path (snd (safeFile_read d path ps fs))"
  shows "safeFile_read d path ps (snd (safeFile_read d path ps fs)) = safeFile_read d path ps fs"
proof -
  let ?fs1 = "snd (safeFile_read d path ps fs)"
  have "safeFile_read d path ps ?fs1
          = (d (case readFile path ?fs1 of Inl e \<Rightarrow> [] | Inr b \<Rightarrow> b), ?fs1)"
    using assms by (simp add: safeFile_read_def[of d path ps ?fs1] Let_def)
  also have "\<dots> = (fst (safeFile_read d path ps fs), ?fs1)" by (simp add: read_fst)
  finally show ?thesis by simp
qed

lemma read_copies_once:
  "length (copyLog (snd (safeFile_read d path ps fs))) \<le> length (copyLog fs) + 1"
  using copyLegacy_cases[of path ps fs] by (auto simp: read_snd)

lemma read_keeps_others:
  "q \<noteq> path \<Longrightarrow> files (snd (safeFile_read d path ps fs)) q = files fs q"
  using copyLegacy_cases[of path ps fs] by (auto simp: read_snd)

text \<open>
  C5. \<open>read\<close> of the file store: when the primary path exists nothing is copied; when it
  is missing, the legacy paths are tried in order and the first one whose copy succeeds is
  copied to the primary path (failed copies before it are passed over), and its content
  is what is decoded; when no copy succeeds the disk is unchanged and the empty buffer is
  decoded; whenever the primary path is still missing after the migration step the empty
  buffer is decoded. A second read, the primary path now present, returns the same value
  and leaves the disk as it is, copy record included; a read makes at most one copy; and
  no path other than the primary path is changed, so the legacy source stays.
\<close>

theorem safeFile_read_migration:
  "(\<not> missing path fs \<longrightarrow> snd (safeFile_read d path ps fs) = fs)
   \<and> (missing path fs \<and> find (can_copy path fs) ps = None \<longrightarrow>
        safeFile_read d path ps fs = (d [], fs))
   \<and> (missing path fs \<and> find (can_copy path fs) ps = Some p \<and> files fs p = Some content \<longrightarrow>
        safeFile_read d path ps fs
          = (d content, fs\<lparr>files := (files fs)(path \<mapsto> content),
                            copyLog := copyLog fs @ [(p, path)]\<rparr>))
   \<and> (files (snd (safeFile_read d path ps fs)) path = None \<longrightarrow>
        fst (safeFile_read d path ps fs) = d [])
   \<and> (\<not> missing path (snd (safeFile_read d path ps fs)) \<longrightarrow>
        safeFile_read d path ps (snd (safeFile_read d path ps fs)) = safeFile_read d path ps fs)
   \<and> length (copyLog (snd (safeFile_read d path ps fs))) \<le> length (copyLog fs) + 1
   \<and> (q \<noteq> path \<longrightarrow> files (snd (safeFile_read d path ps fs)) q = files fs q)"
  using read_present[of path fs d ps] read_none[of path fs ps d]
    read_some[of path fs ps p content d] read_still_missing[of d path ps fs]
    read_again[of path d ps fs] read_copies_once[of d path ps fs]
    read_keeps_others[of q path d ps fs]
  by blast

text \<open>The theorem on a disk whose second legacy place holds the file, and with no legacy
  place at all.\<close>

theorem safeFile_read_migration_witness:
  "safeFile_read (\<lambda>b. b) primary_place legacy_places disk_legacy
     = (''legacy user data'', disk_migrated)
   \<and> safeFile_read (\<lambda>b. b) primary_place legacy_places disk_migrated
     = (''legacy user data'', disk_migrated)
   \<and> copyLog disk_migrated = [(''/home/.minecraft/user.json'', primary_place)]
   \<and> files disk_migrated ''/home/.minecraft/user.json'' = Some ''legacy user data''
   \<and> safeFile_read (\<lambda>b. b) primary_place [] disk_legacy = ([], disk_legacy)"
proof -
  let ?q = "''/home/.minecraft/user.json''"
  have m: "missing primary_place disk_legacy"
    by (simp add: missing_def disk_legacy_def primary_place_def)
  have f: "find (can_copy primary_place disk_legacy) legacy_places = Some ?q"
    by (simp add: can_copy_def copyFile_def disk_legacy_def legacy_places_def)
  have c: "files disk_legacy ?q = Some ''legacy user data''"
    by (simp add: disk_legacy_def)
  have n: "?q \<noteq> primary_place" by (simp add: primary_place_def)
  note t = safeFile_read_migration[where path = primary_place and fs = disk_legacy
      and d = "\<lambda>b. b" and ps = legacy_places and p = ?q and content = "''legacy user data''"
      and q = ?q]
  have r1: "safeFile_read (\<lambda>b. b) primary_place legacy_places disk_legacy
              = (''legacy user data'', disk_migrated)"
    using t m f c by (simp add: disk_migrated_def)
  have p: "\<not> missing primary_place disk_migrated"
    by (simp add: missing_def disk_migrated_def)
  have r2: "safeFile_read (\<lambda>b. b) primary_place legacy_places disk_migrated
              = (''legacy user data'', disk_migrated)"
    using t p r1 by simp
  have r3: "files disk_migrated ?q = Some ''legacy user data''"
    using t n c r1 by simp
  have r4: "safeFile_read (\<lambda>b. b) primary_place [] disk_legacy = ([], disk_legacy)"
    using safeFile_read_migration[where path = primary_place and fs = disk_legacy
        and d = "\<lambda>b. b" and ps = "[]"] m by simp
  have r5: "copyLog disk_migrated = [(?q, primary_place)]"
    by (simp add: disk_migrated_def disk_legacy_def)
  from r1 r2 r3 r4 r5 show ?thesis by blast
qed

section \<open>Reading logs and crash reports\<close>

text \<open>
  C10, as amended. \<open>getLogContent\<close> never raises. It returns the empty string when
  the file cannot be read, when gunzip fails, and when decoding fails. A failed encoding
  guess is caught on its own and replaced by \<open>UTF8\<close>: the result is then the content
  decoded as \<open>UTF8\<close> (the empty string only if that decoding fails).
  \<open>getCrashReportContent\<close> hands a read failure and a gunzip failure to its caller.
\<close>

theorem getLogContent_never_raises:
  "(\<exists>result. getLogContent env name = Inr result)
   \<and> (readFile (join env [instancePath env, ''logs'', name]) (disk env) = Inl e \<longrightarrow>
        getLogContent env name = Inr [])
   \<and> (readFile (join env [instancePath env, ''logs'', name]) (disk env) = Inr buf
        \<and> gunzipIfGz env name buf = Inl e \<longrightarrow>
        getLogContent env name = Inr [])
   \<and> (readFile (join env [instancePath env, ''logs'', name]) (disk env) = Inr buf
        \<and> gunzipIfGz env name buf = Inr buf1
        \<and> decode env buf1 (encodingOf env buf1) = Inl e \<longrightarrow>
        getLogContent env name = Inr [])
   \<and> (readFile (join env [instancePath env, ''logs'', name]) (disk env) = Inr buf
        \<and> gunzipIfGz env name buf = Inr buf1
        \<and> guessEncodingByBuffer env buf1 = Inl e \<longrightarrow>
        getLogContent env name
          = (case decode env buf1 (UTF8 env) of Inl e1 \<Rightarrow> Inr [] | Inr result \<Rightarrow> Inr result))
   \<and> (readFile (trim (if isAbsolute env name then name
                        else join env [instancePath env, ''crash-reports'', name])) (disk env)
          = Inl e \<longrightarrow>
        getCrashReportContent env name = Inl e)
   \<and> (readFile (trim (if isAbsolute env name then name
                        else join env [instancePath env, ''crash-reports'', name])) (disk env)
          = Inr buf
        \<and> gunzipIfGz env name buf = Inl e \<longrightarrow>
        getCrashReportContent env name = Inl e)"
proof (intro conjI impI)
  show "\<exists>result. getLogContent env name = Inr result"
    by (cases "getLogContent_try env name") (simp_all add: getLogContent_def)
qed (simp_all add: getLogContent_def getLogContent_try_def getCrashReportContent_def
      encodingOf_def Let_def split: sum.splits)

text \<open>The theorem on a missing log, a compressed log that does not unzip, a log that does
  not decode, a log whose encoding guess fails, a missing crash report and a compressed
  crash report that does not unzip.\<close>

theorem getLogContent_never_raises_witness:
  "getLogContent log_env ''gone.log'' = Inr []
   \<and> getLogContent log_env ''old.gz'' = Inr []
   \<and> getLogContent log_env_undecodable ''latest.log'' = Inr []
   \<and> getLogContent log_env ''latest.log'' = Inr ''hello''
   \<and> getCrashReportContent log_env ''gone.txt'' = Inl (IOError ''ENOENT'')
   \<and> getCrashReportContent log_env ''crash.gz'' = Inl (IOError ''not gzip'')"
proof -
  have a: "readFile (join log_env [instancePath log_env, ''logs'', ''gone.log'']) (disk log_env)
             = Inl (IOError ''ENOENT'')"
    by (simp add: readFile_def log_env_def)
  have b: "readFile (join log_env [instancePath log_env, ''logs'', ''old.gz'']) (disk log_env)
             = Inr ''zz''"
    "gunzipIfGz log_env ''old.gz'' ''zz'' = Inl (IOError ''not gzip'')"
    by (simp_all add: readFile_def log_env_def gunzipIfGz_def endsWith_def)
  have c: "readFile (join log_env_undecodable [instancePath log_env_undecodable, ''logs'',
              ''latest.log'']) (disk log_env_undecodable) = Inr ''hello''"
    "gunzipIfGz log_env_undecodable ''latest.log'' ''hello'' = Inr ''hello''"
    "decode log_env_undecodable ''hello'' (encodingOf log_env_undecodable ''hello'')
       = Inl (IOError ''bad bytes'')"
    by (simp_all add: readFile_def log_env_undecodable_def log_env_def gunzipIfGz_def
        endsWith_def)
  have d: "readFile (join log_env [instancePath log_env, ''logs'', ''latest.log'']) (disk log_env)
             = Inr ''hello''"
    "gunzipIfGz log_env ''latest.log'' ''hello'' = Inr ''hello''"
    "guessEncodingByBuffer log_env ''hello'' = Inl (IOError ''worker down'')"
    "decode log_env ''hello'' (UTF8 log_env) = Inr ''hello''"
    by (simp_all add: readFile_def log_env_def gunzipIfGz_def endsWith_def)
  have e: "readFile (trim (if isAbsolute log_env ''gone.txt'' then ''gone.txt''
                           else join log_env [instancePath log_env, ''crash-reports'', ''gone.txt'']))
             (disk log_env) = Inl (IOError ''ENOENT'')"
    by (simp add: readFile_def log_env_def trim_def drop_leading.simps drop_one_def
        js_whitespace_def)
  have f: "readFile (trim (if isAbsolute log_env ''crash.gz''
                           then ''crash.gz''
                           else join log_env [instancePath log_env, ''crash-reports'',
                                  ''crash.gz'']))
             (disk log_env) = Inr ''zz''"
    "gunzipIfGz log_env ''crash.gz'' ''zz'' = Inl (IOError ''not gzip'')"
    by (simp_all add: readFile_def log_env_def trim_def drop_leading.simps drop_one_def
        js_whitespace_def gunzipIfGz_def endsWith_def)
  have r1: "getLogContent log_env ''gone.log'' = Inr []"
    using getLogContent_never_raises[where env = log_env and name = "''gone.log''"
        and e = "IOError ''ENOENT''"] a by blast
  have r2: "getLogContent log_env ''old.gz'' = Inr []"
    using getLogContent_never_raises[where env = log_env and name = "''old.gz''"
        and e = "IOError ''not gzip''" and buf = "''zz''"] b by blast
  have r3: "getLogContent log_env_undecodable ''latest.log'' = Inr []"
    using getLogContent_never_raises[where env = log_env_undecodable
        and name = "''latest.log''" and e = "IOError ''bad bytes''" and buf = "''hello''"
        and ?buf1.0 = "''hello''"] c by blast
  have r4: "getLogContent log_env ''latest.log'' = Inr ''hello''"
    using getLogContent_never_raises[where env = log_env and name = "''latest.log''"
        and e = "IOError ''worker down''" and buf = "''hello''" and ?buf1.0 = "''hello''"] d
    by simp
  have r5: "getCrashReportContent log_env ''gone.txt'' = Inl (IOError ''ENOENT'')"
    using getLogContent_never_raises[where env = log_env and name = "''gone.txt''"
        and e = "IOError ''ENOENT''"] e by blast
  have r6: "getCrashReportContent log_env ''crash.gz''
              = Inl (IOError ''not gzip'')"
    using getLogContent_never_raises[where env = log_env
        and name = "''crash.gz''" and e = "IOError ''not gzip''"
        and buf = "''zz''"] f by blast
  from r1 r2 r3 r4 r5 r6 show ?thesis by blast
qed

text \<open>
  C10 as stated fails for a failed encoding detection: the log is read, the guess fails,
  and the call returns the content decoded as \<open>UTF8\<close>, not the empty string.
\<close>

theorem getLogContent_counterexample:
  "readFile (join log_env [instancePath log_env, ''logs'', ''latest.log'']) (disk log_env)
     = Inr ''hello''
   \<and> guessEncodingByBuffer log_env ''hello'' = Inl (IOError ''worker down'')
   \<and> getLogContent log_env ''latest.log'' = Inr ''hello''
   \<and> getLogContent log_env ''latest.log'' \<noteq> Inr []"
  by (simp add: getLogContent_def getLogContent_try_def gunzipIfGz_def endsWith_def
      encodingOf_def readFile_def log_env_def)

section \<open>Removing the selected account\<close>

text \<open>
  C2. With accounts A (selected, logged in first, with a selected profile) and B (with a
  selected profile), \<open>removeUserProfile("A")\<close> deletes A, but the search for the account
  to switch to finds A itself, so B is not selected: the selection ends empty.
\<close>

theorem removeUserProfile_A_leaves_B_unselected:
  "removeUserProfile ''A'' (service_of offline state_AB)
     = (Inr (), service_of offline
                  (emptyState\<lparr>users := [(''B'', acct_B)], selectedUser_id := []\<rparr>))
   \<and> selectedProfile acct_B \<noteq> []"
  by (simp add: removeUserProfile_def requireString_def state_AB_def emptyState_def
      service_of_def obj_eval acct_A_def acct_B_def userSelect_def
      userProfileRemove_def obj_delete_def)

end
